theory Spec2Isabelle
  imports Main "HOL-Library.Sublist"
begin

unbundle bit_operations_syntax

section \<open>Python string operations used by the workspace manager\<close>

text \<open>
  Python strings are modelled as \<^typ>\<open>string\<close>, one \<^typ>\<open>char\<close> per code point
  below 256.  The functions below follow the methods of \<^verbatim>\<open>str\<close> that
  \<^verbatim>\<open>executor/app/core/workspace.py\<close> calls.
\<close>

text \<open>\<^verbatim>\<open>s.split(sep)\<close> for a one-character separator: never the empty list.\<close>

fun py_split :: "char \<Rightarrow> string \<Rightarrow> string list" where
  "py_split sep [] = [[]]"
| "py_split sep (c # s) =
     (if c = sep then [] # py_split sep s
      else (case py_split sep s of
              [] \<Rightarrow> [[c]]
            | w # ws \<Rightarrow> (c # w) # ws))"

text \<open>\<^verbatim>\<open>s.split(sep, 1)\<close>: at most one cut, at the first separator.\<close>

definition py_split1 :: "char \<Rightarrow> string \<Rightarrow> string list" where
  "py_split1 sep s =
     (case dropWhile (\<lambda>c. c \<noteq> sep) s of
        [] \<Rightarrow> [s]
      | _ # rest \<Rightarrow> [takeWhile (\<lambda>c. c \<noteq> sep) s, rest])"

text \<open>\<^verbatim>\<open>s.rstrip(chars)\<close> for a one-character set.\<close>

definition rstrip_char :: "char \<Rightarrow> string \<Rightarrow> string" where
  "rstrip_char ch s = rev (dropWhile (\<lambda>c. c = ch) (rev s))"

text \<open>\<^verbatim>\<open>s.endswith(t)\<close>.\<close>

definition endswith :: "string \<Rightarrow> string \<Rightarrow> bool" where
  "endswith s t = suffix t s"

section \<open>Paths\<close>

text \<open>
  A \<^verbatim>\<open>pathlib.Path\<close> is the list of its components below the file-system root.
  \<^verbatim>\<open>p / s\<close> parses \<^verbatim>\<open>s\<close> as pathlib does on POSIX: components are cut at
  \<^verbatim>\<open>/\<close>, empty components and \<^verbatim>\<open>.\<close> are dropped, \<^verbatim>\<open>..\<close> is kept, and an
  absolute \<^verbatim>\<open>s\<close> replaces \<^verbatim>\<open>p\<close>.
\<close>

type_synonym path = "string list"

definition parse_parts :: "string \<Rightarrow> path" where
  "parse_parts s = filter (\<lambda>c. c \<noteq> [] \<and> c \<noteq> ''.'') (py_split CHR ''/'' s)"

definition path_join :: "path \<Rightarrow> string \<Rightarrow> path" where
  "path_join p s =
     (case s of
        [] \<Rightarrow> p
      | c # _ \<Rightarrow> if c = CHR ''/'' then parse_parts s else p @ parse_parts s)"

section \<open>Path derivation\<close>

text \<open>
  \<^verbatim>\<open>WorkspaceManager._derive_repo_path\<close>, with \<^verbatim>\<open>self.root_path\<close> as the first
  argument.
\<close>

definition derive_repo_name :: "string \<Rightarrow> string" where
  "derive_repo_name repo_url =
     (let clean = rstrip_char CHR ''/''
                    (hd (py_split1 CHR ''#'' (hd (py_split1 CHR ''?'' repo_url))));
          name = (if clean \<noteq> [] then last (py_split CHR ''/'' clean) else ''repo'');
          name = (if endswith name ''.git''
                  then take (length name - length ''.git'') name else name);
          name = (if name = [] \<or> name \<in> {''.'', ''..''} then ''repo'' else name)
      in name)"

definition derive_repo_path :: "path \<Rightarrow> string \<Rightarrow> path" where
  "derive_repo_path root_path repo_url = path_join root_path (derive_repo_name repo_url)"


text \<open>
  The derivation as the specification words it: cut the query string and the fragment,
  drop trailing slashes, keep the final segment, drop one trailing \<^verbatim>\<open>.git\<close>, fall
  back to \<^verbatim>\<open>repo\<close>.
\<close>

definition spec_repo_name :: "string \<Rightarrow> string" where
  "spec_repo_name url =
     (let no_query_fragment = takeWhile (\<lambda>c. c \<noteq> CHR ''?'' \<and> c \<noteq> CHR ''#'') url;
          no_trailing_slash = rev (dropWhile (\<lambda>c. c = CHR ''/'') (rev no_query_fragment));
          segment = rev (takeWhile (\<lambda>c. c \<noteq> CHR ''/'') (rev no_trailing_slash));
          base = (if suffix ''.git'' segment then take (length segment - 4) segment else segment)
      in if base = [] \<or> base = ''.'' \<or> base = ''..'' then ''repo'' else base)"

section \<open>More string operations\<close>

abbreviation LF :: char where "LF \<equiv> CHR 0x0A"
abbreviation CR :: char where "CR \<equiv> CHR 0x0D"

text \<open>\<^verbatim>\<open>str.isspace\<close> on the code points below 256.\<close>

definition is_space :: "char \<Rightarrow> bool" where
  "is_space c =
     (let n = (of_char c :: nat)
      in (9 \<le> n \<and> n \<le> 13) \<or> (28 \<le> n \<and> n \<le> 32) \<or> n = 133 \<or> n = 160)"

text \<open>\<^verbatim>\<open>s.strip()\<close>.\<close>

definition strip :: "string \<Rightarrow> string" where
  "strip s = rev (dropWhile is_space (rev (dropWhile is_space s)))"

text \<open>\<^verbatim>\<open>s.lower()\<close> on the code points below 256.\<close>

definition lower_char :: "char \<Rightarrow> char" where
  "lower_char c =
     (let n = (of_char c :: nat)
      in if (65 \<le> n \<and> n \<le> 90) \<or> (192 \<le> n \<and> n \<le> 222 \<and> n \<noteq> 215)
         then char_of (n + 32) else c)"

definition lower :: "string \<Rightarrow> string" where
  "lower s = map lower_char s"

text \<open>
  The line boundaries of \<^verbatim>\<open>str.splitlines\<close> below 256: LF, VT, FF, CR, FS, GS, RS
  and NEL; CR LF counts once.
\<close>

definition is_linebreak :: "char \<Rightarrow> bool" where
  "is_linebreak c =
     (let n = (of_char c :: nat)
      in (10 \<le> n \<and> n \<le> 13) \<or> (28 \<le> n \<and> n \<le> 30) \<or> n = 133)"

fun splitlines_from :: "string \<Rightarrow> string \<Rightarrow> string list" where
  "splitlines_from cur [] = (if cur = [] then [] else [cur])"
| "splitlines_from cur [c] = (if is_linebreak c then [cur] else [cur @ [c]])"
| "splitlines_from cur (c # d # s) =
     (if c = CR \<and> d = LF then cur # splitlines_from [] s
      else if is_linebreak c then cur # splitlines_from [] (d # s)
      else splitlines_from (cur @ [c]) (d # s))"

definition splitlines :: "string \<Rightarrow> string list" where
  "splitlines s = splitlines_from [] s"

text \<open>\<^verbatim>\<open>sep.join(xs)\<close>.\<close>

definition py_join :: "string \<Rightarrow> string list \<Rightarrow> string" where
  "py_join sep xs =
     (case xs of [] \<Rightarrow> [] | x # rest \<Rightarrow> x @ concat (map (\<lambda>y. sep @ y) rest))"

text \<open>\<^verbatim>\<open>s.replace(a, b)\<close> for one-character \<^verbatim>\<open>a\<close> and \<^verbatim>\<open>b\<close>.\<close>

definition replace_char :: "char \<Rightarrow> char \<Rightarrow> string \<Rightarrow> string" where
  "replace_char a b s = map (\<lambda>c. if c = a then b else c) s"

text \<open>
  Reading a file in text mode translates CR LF and a lone CR to LF (universal newlines).
\<close>

fun universal_newlines :: "string \<Rightarrow> string" where
  "universal_newlines [] = []"
| "universal_newlines [c] = [if c = CR then LF else c]"
| "universal_newlines (c # d # s) =
     (if c = CR \<and> d = LF then LF # universal_newlines s
      else if c = CR then LF # universal_newlines (d # s)
      else c # universal_newlines (d # s))"

text \<open>\<^verbatim>\<open>str(path)\<close>.\<close>

definition str_path :: "path \<Rightarrow> string" where
  "str_path p = (if p = [] then ''/'' else concat (map (\<lambda>c. CHR ''/'' # c) p))"

section \<open>Exceptions\<close>

text \<open>
  The exception classes that can reach the manager.  The first five are the subclasses of
  \<^verbatim>\<open>OSError\<close> that the file-system calls raise; \<open>OSError\<close> stands for any other
  instance of that class, \<open>OtherException\<close> for an exception outside the classes
  named in the source.  The string is the message \<^verbatim>\<open>str(exc)\<close>.
\<close>

datatype error =
    FileExistsError
  | FileNotFoundError
  | NotADirectoryError
  | IsADirectoryError
  | PermissionError
  | OSError string
  | GitCommandError string
  | GitError string
  | RuntimeError string
  | OtherException string

fun str_exc :: "error \<Rightarrow> string" where
  "str_exc FileExistsError = ''[Errno 17] File exists''"
| "str_exc FileNotFoundError = ''[Errno 2] No such file or directory''"
| "str_exc NotADirectoryError = ''[Errno 20] Not a directory''"
| "str_exc IsADirectoryError = ''[Errno 21] Is a directory''"
| "str_exc PermissionError = ''[Errno 13] Permission denied''"
| "str_exc (OSError m) = m"
| "str_exc (GitCommandError m) = m"
| "str_exc (GitError m) = m"
| "str_exc (RuntimeError m) = m"
| "str_exc (OtherException m) = m"

text \<open>The handler \<^verbatim>\<open>except (GitCommandError, GitError, OSError)\<close>.\<close>

fun is_git_or_os_error :: "error \<Rightarrow> bool" where
  "is_git_or_os_error (RuntimeError m) = False"
| "is_git_or_os_error (OtherException m) = False"
| "is_git_or_os_error e = True"

section \<open>File system\<close>

text \<open>
  The file system maps a path to the entry stored under it.  A file carries its content
  and its permission bits.  Symbolic links hold an absolute target and are followed at the
  final component of a path, up to the bound of the operating system; entries are stored
  under the path by which they are named.
\<close>

datatype node = File string nat | Dir | Symlink path

type_synonym filesystem = "path \<Rightarrow> node option"

text \<open>
  What the operating system permits on the entry of a path: to look it up and change it;
  to look it up only (the directory holding it cannot be written); or nothing (a
  directory on the way to it cannot be searched, every call on the path fails with
  \<^verbatim>\<open>EACCES\<close>).
\<close>

datatype access = Writable | ReadOnly | Unsearchable

definition SYMLOOP_MAX :: nat where
  "SYMLOOP_MAX = 40"

definition ELOOP :: error where
  "ELOOP = OSError ''[Errno 40] Too many levels of symbolic links''"

fun follow :: "nat \<Rightarrow> (path \<Rightarrow> access) \<Rightarrow> filesystem \<Rightarrow> path \<Rightarrow> error + path" where
  "follow 0 acc F p = Inl ELOOP"
| "follow (Suc n) acc F p =
     (if acc p = Unsearchable then Inl PermissionError
      else case F p of Some (Symlink t) \<Rightarrow> follow n acc F t | _ \<Rightarrow> Inr p)"

text \<open>\<^verbatim>\<open>os.stat\<close> follows links, \<^verbatim>\<open>os.lstat\<close> does not.\<close>

definition os_stat :: "(path \<Rightarrow> access) \<Rightarrow> filesystem \<Rightarrow> path \<Rightarrow> error + node" where
  "os_stat acc F p =
     (case follow SYMLOOP_MAX acc F p of
        Inl e \<Rightarrow> Inl e
      | Inr q \<Rightarrow> (case F q of None \<Rightarrow> Inl FileNotFoundError | Some n \<Rightarrow> Inr n))"

definition os_lstat :: "(path \<Rightarrow> access) \<Rightarrow> filesystem \<Rightarrow> path \<Rightarrow> error + node" where
  "os_lstat acc F p =
     (if acc p = Unsearchable then Inl PermissionError
      else case F p of None \<Rightarrow> Inl FileNotFoundError | Some n \<Rightarrow> Inr n)"

text \<open>
  The queries of pathlib answer \<^verbatim>\<open>False\<close> on the errors \<^verbatim>\<open>ENOENT\<close>,
  \<^verbatim>\<open>ENOTDIR\<close>, \<^verbatim>\<open>EBADF\<close> and \<^verbatim>\<open>ELOOP\<close> and raise every other
  \<^verbatim>\<open>OSError\<close> of the lookup.
\<close>

definition ignore_error :: "error \<Rightarrow> bool" where
  "ignore_error e = (e = FileNotFoundError \<or> e = NotADirectoryError \<or> e = ELOOP)"

definition path_exists :: "(path \<Rightarrow> access) \<Rightarrow> filesystem \<Rightarrow> path \<Rightarrow> error + bool" where
  "path_exists acc F p =
     (case os_stat acc F p of
        Inr n \<Rightarrow> Inr True
      | Inl e \<Rightarrow> if ignore_error e then Inr False else Inl e)"

definition is_symlink :: "(path \<Rightarrow> access) \<Rightarrow> filesystem \<Rightarrow> path \<Rightarrow> error + bool" where
  "is_symlink acc F p =
     (case os_lstat acc F p of
        Inr n \<Rightarrow> Inr (case n of Symlink t \<Rightarrow> True | _ \<Rightarrow> False)
      | Inl e \<Rightarrow> if ignore_error e then Inr False else Inl e)"

definition is_dir :: "(path \<Rightarrow> access) \<Rightarrow> filesystem \<Rightarrow> path \<Rightarrow> error + bool" where
  "is_dir acc F p =
     (case os_stat acc F p of
        Inr n \<Rightarrow> Inr (n = Dir)
      | Inl e \<Rightarrow> if ignore_error e then Inr False else Inl e)"

text \<open>The error of looking up the directory that is to hold a new entry.\<close>

definition parent_error :: "(path \<Rightarrow> access) \<Rightarrow> filesystem \<Rightarrow> path \<Rightarrow> error option" where
  "parent_error acc F p =
     (case os_stat acc F (butlast p) of
        Inl e \<Rightarrow> Some e
      | Inr Dir \<Rightarrow> None
      | Inr other \<Rightarrow> Some NotADirectoryError)"

definition os_mkdir :: "(path \<Rightarrow> access) \<Rightarrow> path \<Rightarrow> filesystem \<Rightarrow> error + filesystem" where
  "os_mkdir acc p F =
     (if acc p = Unsearchable then Inl PermissionError
      else if F p \<noteq> None then Inl FileExistsError
      else case parent_error acc F p of
             Some e \<Rightarrow> Inl e
           | None \<Rightarrow> if acc p \<noteq> Writable then Inl PermissionError else Inr (F(p \<mapsto> Dir)))"

text \<open>
  \<^verbatim>\<open>Path.mkdir(parents=..., exist_ok=...)\<close> of pathlib: on \<^verbatim>\<open>FileNotFoundError\<close>
  with \<^verbatim>\<open>parents\<close> it creates the parent and retries; on any other
  \<^verbatim>\<open>OSError\<close> it returns normally when \<^verbatim>\<open>exist_ok\<close> holds and the path is a
  directory.  Directories created before a failure stay.
\<close>

function path_mkdir ::
  "(path \<Rightarrow> access) \<Rightarrow> bool \<Rightarrow> bool \<Rightarrow> path \<Rightarrow> filesystem \<Rightarrow> error option \<times> filesystem" where
  "path_mkdir acc parents exist_ok p F =
     (case os_mkdir acc p F of
        Inr F' \<Rightarrow> (None, F')
      | Inl e \<Rightarrow>
          if e = FileNotFoundError then
            (if \<not> parents \<or> butlast p = p then (Some e, F)
             else (case path_mkdir acc True True (butlast p) F of
                     (Some e', F1) \<Rightarrow> (Some e', F1)
                   | (None, F1) \<Rightarrow> path_mkdir acc False exist_ok p F1))
          else if \<not> exist_ok then (Some e, F)
          else (case is_dir acc F p of
                  Inl e' \<Rightarrow> (Some e', F)
                | Inr d \<Rightarrow> if d then (None, F) else (Some e, F)))"
  by pat_completeness auto
termination
  by (relation "measure (\<lambda>(acc, parents, exist_ok, p, F).
                   2 * length p + (if parents then 1 else 0))")
     (auto simp: butlast_conv_take intro: Suc_lessI split: if_splits)

declare path_mkdir.simps [simp del]

text \<open>\<^verbatim>\<open>Path.unlink(missing_ok=...)\<close>: removes the entry itself, never the target of a link.\<close>

definition unlink :: "(path \<Rightarrow> access) \<Rightarrow> bool \<Rightarrow> path \<Rightarrow> filesystem \<Rightarrow> error + filesystem" where
  "unlink acc missing_ok p F =
     (if acc p = Unsearchable then Inl PermissionError
      else case F p of
             None \<Rightarrow> if missing_ok then Inr F else Inl FileNotFoundError
           | Some Dir \<Rightarrow> Inl IsADirectoryError
           | Some other \<Rightarrow> if acc p \<noteq> Writable then Inl PermissionError else Inr (F(p := None)))"

text \<open>
  \<^verbatim>\<open>shutil.rmtree(p)\<close>: removes a directory and everything below it; it refuses a
  symbolic link and fails on anything that is not a directory.
\<close>

definition rmtree :: "(path \<Rightarrow> access) \<Rightarrow> path \<Rightarrow> filesystem \<Rightarrow> error + filesystem" where
  "rmtree acc p F =
     (if acc p = Unsearchable then Inl PermissionError
      else case F p of
             None \<Rightarrow> Inl FileNotFoundError
           | Some (Symlink t) \<Rightarrow> Inl (OSError ''Cannot call rmtree on a symbolic link'')
           | Some (File c m) \<Rightarrow> Inl NotADirectoryError
           | Some Dir \<Rightarrow>
               if acc p \<noteq> Writable then Inl PermissionError
               else Inr (\<lambda>q. if prefix p q then None else F q))"

text \<open>\<^verbatim>\<open>p.symlink_to(target)\<close>.\<close>

definition symlink_to ::
  "(path \<Rightarrow> access) \<Rightarrow> path \<Rightarrow> path \<Rightarrow> filesystem \<Rightarrow> error + filesystem" where
  "symlink_to acc p target F =
     (if acc p = Unsearchable then Inl PermissionError
      else if F p \<noteq> None then Inl FileExistsError
      else case parent_error acc F p of
             Some e \<Rightarrow> Inl e
           | None \<Rightarrow>
               if acc p \<noteq> Writable then Inl PermissionError
               else Inr (F(p \<mapsto> Symlink target)))"

text \<open>\<^verbatim>\<open>p.read_text(encoding="utf-8")\<close>.\<close>

definition read_text :: "(path \<Rightarrow> access) \<Rightarrow> path \<Rightarrow> filesystem \<Rightarrow> error + string" where
  "read_text acc p F =
     (case os_stat acc F p of
        Inl e \<Rightarrow> Inl e
      | Inr (File c m) \<Rightarrow> Inr (universal_newlines c)
      | Inr Dir \<Rightarrow> Inl IsADirectoryError
      | Inr (Symlink t) \<Rightarrow> Inl ELOOP)"

text \<open>
  \<^verbatim>\<open>p.write_text(data, encoding="utf-8")\<close>: truncates the file the path leads to, or
  creates it with the default permission bits.
\<close>

definition DEFAULT_FILE_MODE :: nat where
  "DEFAULT_FILE_MODE = 420"

definition write_text ::
  "(path \<Rightarrow> access) \<Rightarrow> path \<Rightarrow> string \<Rightarrow> filesystem \<Rightarrow> error + filesystem" where
  "write_text acc p data F =
     (case follow SYMLOOP_MAX acc F p of
        Inl e \<Rightarrow> Inl e
      | Inr q \<Rightarrow>
          (case F q of
             Some Dir \<Rightarrow> Inl IsADirectoryError
           | Some (File c m) \<Rightarrow>
               if acc q \<noteq> Writable then Inl PermissionError
               else Inr (F(q \<mapsto> File data m))
           | other \<Rightarrow>
               (case parent_error acc F q of
                  Some e \<Rightarrow> Inl e
                | None \<Rightarrow>
                    if acc q \<noteq> Writable then Inl PermissionError
                    else Inr (F(q \<mapsto> File data DEFAULT_FILE_MODE)))))"

text \<open>\<^verbatim>\<open>p.chmod(mode)\<close>; only the bits of files are kept in the model.\<close>

definition chmod :: "(path \<Rightarrow> access) \<Rightarrow> path \<Rightarrow> nat \<Rightarrow> filesystem \<Rightarrow> error + filesystem" where
  "chmod acc p mode F =
     (case follow SYMLOOP_MAX acc F p of
        Inl e \<Rightarrow> Inl e
      | Inr q \<Rightarrow>
          (case F q of
             Some (File c m) \<Rightarrow>
               if acc q \<noteq> Writable then Inl PermissionError
               else Inr (F(q \<mapsto> File c mode))
           | Some Dir \<Rightarrow> if acc q \<noteq> Writable then Inl PermissionError else Inr F
           | other \<Rightarrow> Inl FileNotFoundError))"

definition S_IRUSR :: nat where "S_IRUSR = 256"
definition S_IWUSR :: nat where "S_IWUSR = 128"
definition S_IXUSR :: nat where "S_IXUSR = 64"

section \<open>The world outside the manager\<close>

text \<open>
  The permissions of the operating system, \<^verbatim>\<open>urllib.parse.urlparse\<close>,
  \<^verbatim>\<open>tempfile.mkstemp\<close>, the process environment and the git layer
  \<^verbatim>\<open>app.utils.git.operations\<close> are parameters of the model.  \<open>urlparse\<close> yields
  the scheme and the network location, or \<open>None\<close> where it raises.  The git
  operations act on the file system and may fail; what they did before failing stays.
\<close>

type_synonym env = "string \<Rightarrow> string option"

record ext =
  access :: "path \<Rightarrow> access"
  urlparse :: "string \<Rightarrow> (string \<times> string) option"
  mkstemp_name :: "filesystem \<Rightarrow> path"
  WORKSPACE_GIT_IGNORE :: string
  is_repository :: "filesystem \<Rightarrow> path \<Rightarrow> bool"
  init_repository :: "path \<Rightarrow> filesystem \<Rightarrow> error option \<times> filesystem"
  clone :: "string \<Rightarrow> path \<Rightarrow> string option \<Rightarrow> env \<Rightarrow> filesystem \<Rightarrow> (error + path) \<times> filesystem"
  fetch :: "string \<Rightarrow> string \<Rightarrow> path \<Rightarrow> env option \<Rightarrow> filesystem \<Rightarrow> error option \<times> filesystem"
  checkout :: "string \<Rightarrow> path \<Rightarrow> filesystem \<Rightarrow> error option \<times> filesystem"

text \<open>
  \<^verbatim>\<open>tempfile.mkstemp\<close> creates a new, empty file readable and writable by its owner
  only, under a name nothing else has.
\<close>

definition mkstemp :: "ext \<Rightarrow> filesystem \<Rightarrow> error + (path \<times> filesystem)" where
  "mkstemp X F =
     (let p = mkstemp_name X F
      in if access X p = Unsearchable then Inl PermissionError
         else if F p \<noteq> None then Inl FileExistsError
         else case parent_error (access X) F p of
                Some e \<Rightarrow> Inl e
              | None \<Rightarrow>
                  if access X p \<noteq> Writable then Inl PermissionError
                  else Inr (p, F(p \<mapsto> File [] 384)))"

section \<open>The workspace manager\<close>

record TaskConfig =
  repo_url :: "string option"
  git_branch :: "string option"
  git_token :: "string option"

text \<open>
  The calls of the manager's own phases and of the git layer are recorded, in the order
  in which they are made.
\<close>

datatype phase =
    SetupSessionPersistence
  | PrepareRepository
  | EnsureInputsDir path
  | EnsureGitExcludes path

datatype git_call =
    Clone string path "string option" env
  | Fetch string string path "env option"
  | Checkout string path
  | InitRepository path

datatype event = Phase phase | Git git_call

text \<open>The fields of \<^verbatim>\<open>WorkspaceManager\<close>, the file system and the record of calls.\<close>

record state =
  root_path :: path
  work_path :: path
  claude_config_path :: path
  inputs_root :: path
  persistent_claude_data :: path
  system_claude_home :: path
  git_askpass_path :: "path option"
  fs :: filesystem
  trace :: "event list"

definition log_event :: "event \<Rightarrow> state \<Rightarrow> state" where
  "log_event e s = s\<lparr>trace := trace s @ [e]\<rparr>"

text \<open>\<^verbatim>\<open>WorkspaceManager.__init__\<close>, with \<^verbatim>\<open>Path.home()\<close> as a parameter.\<close>

definition init :: "path \<Rightarrow> path \<Rightarrow> filesystem \<Rightarrow> state" where
  "init mount_path home fs0 =
     \<lparr> root_path = mount_path,
       work_path = mount_path,
       claude_config_path = path_join mount_path ''.claude'',
       inputs_root = path_join mount_path ''inputs'',
       persistent_claude_data = path_join mount_path ''.claude_data'',
       system_claude_home = path_join home ''.claude'',
       git_askpass_path = None,
       fs = fs0,
       trace = [] \<rparr>"

definition DEFAULT_GIT_EXCLUDES :: "string list" where
  "DEFAULT_GIT_EXCLUDES =
     [''.git/'', ''.hg/'', ''.svn/'',
      ''.DS_Store'', ''__pycache__/'', ''.pytest_cache/'', ''.mypy_cache/'', ''.ruff_cache/'',
      ''node_modules/'', ''.venv/'', ''venv/'', ''.next/'', ''dist/'', ''build/'',
      ''.claude_data/'', ''.claude/'', ''inputs/'']"

subsection \<open>Session persistence and cleanup\<close>

definition setup_session_persistence :: "ext \<Rightarrow> state \<Rightarrow> (error + unit) \<times> state" where
  "setup_session_persistence X s0 =
     (let s = log_event (Phase SetupSessionPersistence) s0;
          home = system_claude_home s
      in case path_mkdir (access X) False True (persistent_claude_data s) (fs s) of
           (Some e, F1) \<Rightarrow> (Inl e, s\<lparr>fs := F1\<rparr>)
         | (None, F1) \<Rightarrow>
             (case (case path_exists (access X) F1 home of
                      Inl e \<Rightarrow> Inl e
                    | Inr ex \<Rightarrow> if ex then Inr True else is_symlink (access X) F1 home) of
                Inl e \<Rightarrow> (Inl e, s\<lparr>fs := F1\<rparr>)
              | Inr occupied \<Rightarrow>
                  (case (if occupied
                         then (case is_symlink (access X) F1 home of
                                 Inl e \<Rightarrow> Inl e
                               | Inr link \<Rightarrow>
                                   if link then unlink (access X) False home F1
                                   else rmtree (access X) home F1)
                         else Inr F1) of
                     Inl e \<Rightarrow> (Inl e, s\<lparr>fs := F1\<rparr>)
                   | Inr F2 \<Rightarrow>
                       (case symlink_to (access X) home (persistent_claude_data s) F2 of
                          Inl e \<Rightarrow> (Inl e, s\<lparr>fs := F2\<rparr>)
                        | Inr F3 \<Rightarrow> (Inr (), s\<lparr>fs := F3\<rparr>)))))"

definition cleanup :: "ext \<Rightarrow> state \<Rightarrow> (error + unit) \<times> state" where
  "cleanup X s =
     (case is_symlink (access X) (fs s) (system_claude_home s) of
        Inl e \<Rightarrow> (Inl e, s)
      | Inr link \<Rightarrow>
          (case (if link then unlink (access X) False (system_claude_home s) (fs s)
                 else Inr (fs s)) of
             Inl e \<Rightarrow> (Inl e, s)
           | Inr F1 \<Rightarrow>
               (case git_askpass_path s of
                  None \<Rightarrow> (Inr (), s\<lparr>fs := F1\<rparr>)
                | Some p \<Rightarrow>
                    (case unlink (access X) True p F1 of
                       Inl e \<Rightarrow> (Inr (), s\<lparr>fs := F1, git_askpass_path := None\<rparr>)
                     | Inr F2 \<Rightarrow> (Inr (), s\<lparr>fs := F2, git_askpass_path := None\<rparr>)))))"

subsection \<open>Credentials\<close>

definition askpass_script :: string where
  \<open>askpass_script =
     ''#!/bin/sh'' @ [LF] @
     ''prompt="$1"'' @ [LF] @
     ''case "$prompt" in'' @ [LF] @
     ''  *Username*) echo "${POCO_GIT_USERNAME:-x-access-token}" ;;'' @ [LF] @
     ''  *) echo "${POCO_GIT_TOKEN:-}" ;;'' @ [LF] @
     ''esac'' @ [LF]\<close>

text \<open>
  The second half of \<^verbatim>\<open>_ensure_git_askpass\<close>: a temporary file is made, the script
  written to it, its permission bits set and its path remembered.
\<close>

definition create_git_askpass :: "ext \<Rightarrow> state \<Rightarrow> (error + path) \<times> state" where
  "create_git_askpass X s =
     (case mkstemp X (fs s) of
        Inl e \<Rightarrow> (Inl e, s)
      | Inr (p, F1) \<Rightarrow>
          (case write_text (access X) p askpass_script F1 of
             Inl e \<Rightarrow> (Inl e, s\<lparr>fs := F1\<rparr>)
           | Inr F2 \<Rightarrow>
               (case chmod (access X) p (S_IRUSR OR S_IWUSR OR S_IXUSR) F2 of
                  Inl e \<Rightarrow> (Inl e, s\<lparr>fs := F2\<rparr>)
                | Inr F3 \<Rightarrow> (Inr p, s\<lparr>fs := F3, git_askpass_path := Some p\<rparr>))))"

definition ensure_git_askpass :: "ext \<Rightarrow> state \<Rightarrow> (error + path) \<times> state" where
  "ensure_git_askpass X s =
     (case git_askpass_path s of
        None \<Rightarrow> create_git_askpass X s
      | Some p \<Rightarrow>
          (case path_exists (access X) (fs s) p of
             Inl e \<Rightarrow> (Inl e, s)
           | Inr ex \<Rightarrow> if ex then (Inr p, s) else create_git_askpass X s))"

definition build_git_env ::
  "ext \<Rightarrow> string \<Rightarrow> string option \<Rightarrow> state \<Rightarrow> (error + env) \<times> state" where
  "build_git_env X url token s =
     (let env = [''GIT_TERMINAL_PROMPT'' \<mapsto> ''0'']
      in case token of
           None \<Rightarrow> (Inr env, s)
         | Some tok \<Rightarrow>
             if tok = [] then (Inr env, s)
             else
               (case urlparse X url of
                  None \<Rightarrow> (Inr env, s)
                | Some (scheme, netloc) \<Rightarrow>
                    (let host = lower (strip netloc)
                     in if scheme \<notin> {''http'', ''https''}
                           \<or> host \<notin> {''github.com'', ''www.github.com''}
                        then (Inr env, s)
                        else
                          (case ensure_git_askpass X s of
                             (Inl e, s1) \<Rightarrow> (Inl e, s1)
                           | (Inr askpass, s1) \<Rightarrow>
                               (Inr (env(''GIT_ASKPASS'' \<mapsto> str_path askpass,
                                         ''POCO_GIT_USERNAME'' \<mapsto> ''x-access-token'',
                                         ''POCO_GIT_TOKEN'' \<mapsto> tok)), s1)))))"

subsection \<open>Repository convergence\<close>

text \<open>The UTF-8 bytes of the horizontal ellipsis U+2026 appended to a truncated message.\<close>

definition ELLIPSIS :: string where
  "ELLIPSIS = [CHR 0xE2, CHR 0x80, CHR 0xA6]"

definition compact_detail :: "error \<Rightarrow> string" where
  "compact_detail exc =
     (let detail = str_exc exc
      in if length detail > 2000 then take 2000 detail @ ELLIPSIS else detail)"

definition checkout_failure :: "string \<Rightarrow> path \<Rightarrow> error \<Rightarrow> error" where
  "checkout_failure branch path exc =
     (if is_git_or_os_error exc
      then RuntimeError (''Failed to checkout branch '' @ [CHR 0x27] @ branch @ [CHR 0x27]
                         @ '' for repo at '' @ str_path path @ ''. '' @ compact_detail exc)
      else exc)"

definition clone_failure :: "string \<Rightarrow> error \<Rightarrow> error" where
  "clone_failure url exc =
     (if is_git_or_os_error exc
      then RuntimeError (''Failed to clone repository: '' @ url @ ''. '' @ compact_detail exc)
      else exc)"

definition checkout_branch ::
  "ext \<Rightarrow> path \<Rightarrow> string option \<Rightarrow> env option \<Rightarrow> state \<Rightarrow> (error + unit) \<times> state" where
  "checkout_branch X path branch env s =
     (case branch of
        None \<Rightarrow> (Inr (), s)
      | Some b \<Rightarrow>
          if b = [] then (Inr (), s)
          else
            (let s1 = log_event (Git (Fetch ''origin'' b path env)) s
             in case fetch X ''origin'' b path env (fs s1) of
                  (Some exc, F1) \<Rightarrow> (Inl (checkout_failure b path exc), s1\<lparr>fs := F1\<rparr>)
                | (None, F1) \<Rightarrow>
                    (let s2 = log_event (Git (Checkout b path)) (s1\<lparr>fs := F1\<rparr>)
                     in case checkout X b path (fs s2) of
                          (Some exc, F2) \<Rightarrow>
                            (Inl (checkout_failure b path exc), s2\<lparr>fs := F2\<rparr>)
                        | (None, F2) \<Rightarrow> (Inr (), s2\<lparr>fs := F2\<rparr>))))"

definition ensure_git_repo :: "ext \<Rightarrow> path \<Rightarrow> state \<Rightarrow> state" where
  "ensure_git_repo X path s =
     (if is_repository X (fs s) path then s
      else (let s1 = log_event (Git (InitRepository path)) s
            in case init_repository X path (fs s1) of
                 (exc, F1) \<Rightarrow> s1\<lparr>fs := F1\<rparr>))"

definition ensure_cloned_repo ::
  "ext \<Rightarrow> string \<Rightarrow> string option \<Rightarrow> string option \<Rightarrow> state \<Rightarrow> (error + path) \<times> state" where
  "ensure_cloned_repo X url branch token s =
     (let repo_path = derive_repo_path (root_path s) url
      in case build_git_env X url token s of
           (Inl e, s1) \<Rightarrow> (Inl e, s1)
         | (Inr git_env, s1) \<Rightarrow>
             (case path_exists (access X) (fs s1) repo_path of
                Inl e \<Rightarrow> (Inl e, s1)
              | Inr ex \<Rightarrow>
                  if ex \<and> is_repository X (fs s1) repo_path then
                    (case checkout_branch X repo_path branch (Some git_env) s1 of
                       (Inl e, s2) \<Rightarrow> (Inl e, s2)
                     | (Inr u, s2) \<Rightarrow> (Inr repo_path, s2))
                  else if ex \<and> \<not> is_repository X (fs s1) repo_path then
                    (Inl (RuntimeError (''Target path exists but is not a git repository: ''
                                        @ str_path repo_path)), s1)
                  else
                    (let s2 = log_event (Git (Clone url repo_path branch git_env)) s1
                     in case clone X url repo_path branch git_env (fs s2) of
                          (Inr p, F2) \<Rightarrow> (Inr p, s2\<lparr>fs := F2\<rparr>)
                        | (Inl exc, F2) \<Rightarrow> (Inl (clone_failure url exc), s2\<lparr>fs := F2\<rparr>))))"

definition prepare_repository :: "ext \<Rightarrow> TaskConfig \<Rightarrow> state \<Rightarrow> (error + path) \<times> state" where
  "prepare_repository X config s0 =
     (let s = log_event (Phase PrepareRepository) s0;
          url = strip (case repo_url config of None \<Rightarrow> [] | Some u \<Rightarrow> u)
      in if url \<noteq> [] then
           ensure_cloned_repo X url (git_branch config)
             (let tok = strip (case git_token config of None \<Rightarrow> [] | Some t \<Rightarrow> t)
              in if tok = [] then None else Some tok)
             s
         else (Inr (root_path s), ensure_git_repo X (root_path s) s))"

subsection \<open>Inputs directory and exclude file\<close>

definition ensure_inputs_dir :: "ext \<Rightarrow> path \<Rightarrow> state \<Rightarrow> (error + unit) \<times> state" where
  "ensure_inputs_dir X repo_path s0 =
     (let s = log_event (Phase (EnsureInputsDir repo_path)) s0
      in case path_mkdir (access X) True True (inputs_root s) (fs s) of
           (Some exc, F1) \<Rightarrow> (Inr (), s\<lparr>fs := F1\<rparr>)
         | (None, F1) \<Rightarrow>
             if repo_path = root_path s then (Inr (), s\<lparr>fs := F1\<rparr>)
             else
               (let link_path = path_join repo_path ''inputs''
                in case path_exists (access X) F1 link_path of
                     Inl e \<Rightarrow> (Inl e, s\<lparr>fs := F1\<rparr>)
                   | Inr ex \<Rightarrow>
                       if ex then (Inr (), s\<lparr>fs := F1\<rparr>)
                       else
                         (case symlink_to (access X) link_path (inputs_root s) F1 of
                            Inl exc \<Rightarrow> (Inr (), s\<lparr>fs := F1\<rparr>)
                          | Inr F2 \<Rightarrow> (Inr (), s\<lparr>fs := F2\<rparr>))))"

text \<open>The candidate patterns: the built-in ones, then the extras of the environment.\<close>

definition exclude_patterns :: "string \<Rightarrow> string list" where
  "exclude_patterns extra =
     DEFAULT_GIT_EXCLUDES @
     (if extra \<noteq> []
      then filter (\<lambda>v. v \<noteq> []) (map strip (splitlines (replace_char CHR '','' LF extra)))
      else [])"

text \<open>The stripped, non-empty lines of a text, read as a set.\<close>

definition existing_lines :: "string \<Rightarrow> string set" where
  "existing_lines content = set (filter (\<lambda>l. l \<noteq> []) (map strip (splitlines content)))"

text \<open>
  The second \<^verbatim>\<open>try\<close> block of \<^verbatim>\<open>_ensure_git_excludes\<close>: the text that is
  written, or the exception that is logged.
\<close>

definition updated_excludes ::
  "(path \<Rightarrow> access) \<Rightarrow> path \<Rightarrow> string list \<Rightarrow> filesystem \<Rightarrow> error + filesystem" where
  "updated_excludes acc exclude_path to_add F =
     (case path_exists acc F exclude_path of
        Inl exc \<Rightarrow> Inl exc
      | Inr ex \<Rightarrow>
          (case (if ex
                 then (case read_text acc exclude_path F of
                         Inl exc \<Rightarrow> Inl exc
                       | Inr content \<Rightarrow>
                           Inr (if content \<noteq> [] \<and> \<not> endswith content [LF]
                                then content @ [LF] else content))
                 else Inr []) of
             Inl exc \<Rightarrow> Inl exc
           | Inr content \<Rightarrow>
               write_text acc exclude_path (content @ py_join [LF] to_add @ [LF]) F))"

definition ensure_git_excludes :: "ext \<Rightarrow> path \<Rightarrow> state \<Rightarrow> (error + unit) \<times> state" where
  "ensure_git_excludes X repo_path s0 =
     (let s = log_event (Phase (EnsureGitExcludes repo_path)) s0
      in if \<not> is_repository X (fs s) repo_path then (Inr (), s)
         else
           (let patterns = exclude_patterns (WORKSPACE_GIT_IGNORE X)
            in if patterns = [] then (Inr (), s)
               else
                 (let exclude_path =
                        path_join (path_join (path_join repo_path ''.git'') ''info'') ''exclude''
                  in case path_mkdir (access X) True True (butlast exclude_path) (fs s) of
                       (Some exc, F1) \<Rightarrow> (Inl exc, s\<lparr>fs := F1\<rparr>)
                     | (None, F1) \<Rightarrow>
                         (case path_exists (access X) F1 exclude_path of
                            Inl exc \<Rightarrow> (Inl exc, s\<lparr>fs := F1\<rparr>)
                          | Inr ex \<Rightarrow>
                              (let existing =
                                     (if ex
                                      then (case read_text (access X) exclude_path F1 of
                                              Inr text \<Rightarrow> existing_lines text
                                            | Inl exc \<Rightarrow> {})
                                      else {});
                                   to_add = filter (\<lambda>p. p \<notin> existing) patterns
                               in if to_add = [] then (Inr (), s\<lparr>fs := F1\<rparr>)
                                  else
                                    (case updated_excludes (access X) exclude_path to_add F1 of
                                       Inl exc \<Rightarrow> (Inr (), s\<lparr>fs := F1\<rparr>)
                                     | Inr F2 \<Rightarrow> (Inr (), s\<lparr>fs := F2\<rparr>)))))))"

subsection \<open>Preparation\<close>

definition prepare :: "ext \<Rightarrow> TaskConfig \<Rightarrow> state \<Rightarrow> (error + unit) \<times> state" where
  "prepare X config s =
     (case (case path_exists (access X) (fs s) (root_path s) of
              Inl e \<Rightarrow> (Some e, fs s)
            | Inr ex \<Rightarrow>
                if \<not> ex then path_mkdir (access X) True True (root_path s) (fs s)
                else (None, fs s)) of
        (Some e, F0) \<Rightarrow> (Inl e, s\<lparr>fs := F0\<rparr>)
      | (None, F0) \<Rightarrow>
          (case setup_session_persistence X (s\<lparr>fs := F0\<rparr>) of
             (Inl e, s1) \<Rightarrow> (Inl e, s1)
           | (Inr u, s1) \<Rightarrow>
               (case prepare_repository X config s1 of
                  (Inl e, s2) \<Rightarrow> (Inl e, s2)
                | (Inr p, s2) \<Rightarrow>
                    (let s3 = s2\<lparr>work_path := p\<rparr>
                     in case ensure_inputs_dir X (work_path s3) s3 of
                          (Inl e, s4) \<Rightarrow> (Inl e, s4)
                        | (Inr u, s4) \<Rightarrow> ensure_git_excludes X (work_path s4) s4))))"

section \<open>An instance of the outside world\<close>

text \<open>
  Scheme and network location as \<^verbatim>\<open>urllib.parse.urlsplit\<close> of CPython computes them
  for a URL free of leading blanks and control characters: the scheme is the text before
  the first colon when that text is made of scheme characters and starts with a letter;
  the network location follows \<^verbatim>\<open>//\<close> and ends before the first of
  \<^verbatim>\<open>/ ? #\<close>; unbalanced brackets raise \<^verbatim>\<open>ValueError\<close>.
\<close>

definition is_scheme_char :: "char \<Rightarrow> bool" where
  "is_scheme_char c =
     (let n = (of_char c :: nat)
      in (97 \<le> n \<and> n \<le> 122) \<or> (65 \<le> n \<and> n \<le> 90) \<or> (48 \<le> n \<and> n \<le> 57)
         \<or> c = CHR ''+'' \<or> c = CHR ''-'' \<or> c = CHR ''.'')"

definition is_ascii_alpha :: "char \<Rightarrow> bool" where
  "is_ascii_alpha c =
     (let n = (of_char c :: nat) in (97 \<le> n \<and> n \<le> 122) \<or> (65 \<le> n \<and> n \<le> 90))"

definition urlsplit_scheme_netloc :: "string \<Rightarrow> (string \<times> string) option" where
  "urlsplit_scheme_netloc url =
     (let colon_head = takeWhile (\<lambda>c. c \<noteq> CHR '':'') url;
          has_scheme = (CHR '':'' \<in> set url \<and> colon_head \<noteq> []
                         \<and> is_ascii_alpha (hd colon_head) \<and> list_all is_scheme_char colon_head);
          scheme = (if has_scheme then lower colon_head else []);
          rest = (if has_scheme then drop (Suc (length colon_head)) url else url);
          netloc = (if take 2 rest = ''//''
                    then takeWhile (\<lambda>c. c \<noteq> CHR ''/'' \<and> c \<noteq> CHR ''?'' \<and> c \<noteq> CHR ''#'')
                           (drop 2 rest)
                    else [])
      in if (CHR ''['' \<in> set netloc) \<noteq> (CHR '']'' \<in> set netloc) then None
         else Some (scheme, netloc))"

text \<open>
  A git layer for the examples: a repository is a directory with a \<^verbatim>\<open>.git\<close>
  directory in it; cloning and initialising create both; a fetch writes the remote and
  the branch to \<^verbatim>\<open>.git/FETCH_HEAD\<close>, a checkout writes the branch to
  \<^verbatim>\<open>.git/HEAD\<close>.  Everything is permitted; temporary files are
  \<^verbatim>\<open>/tmp/poco-git-askpass-0\<close>.
\<close>

definition demo_ext :: ext where
  "demo_ext =
     \<lparr> access = (\<lambda>p. Writable),
       urlparse = urlsplit_scheme_netloc,
       mkstemp_name = (\<lambda>F. [''tmp'', ''poco-git-askpass-0'']),
       WORKSPACE_GIT_IGNORE = [],
       is_repository = (\<lambda>F p. F p = Some Dir \<and> F (p @ [''.git'']) = Some Dir),
       init_repository = (\<lambda>p F. (None, F(p @ [''.git''] \<mapsto> Dir))),
       clone = (\<lambda>url p branch env F. (Inr p, F(p \<mapsto> Dir, p @ [''.git''] \<mapsto> Dir))),
       fetch = (\<lambda>remote branch cwd env F.
                  (None, F(cwd @ [''.git'', ''FETCH_HEAD''] \<mapsto> File (remote @ ''/'' @ branch) 420))),
       checkout = (\<lambda>branch cwd F.
                  (None, F(cwd @ [''.git'', ''HEAD''] \<mapsto> File (''ref: refs/heads/'' @ branch) 420))) \<rparr>"

text \<open>A mount with a home directory, a temporary directory and nothing else.\<close>

definition demo_fs :: filesystem where
  "demo_fs = [[] \<mapsto> Dir, [''workspace''] \<mapsto> Dir, [''root''] \<mapsto> Dir, [''tmp''] \<mapsto> Dir]"

definition demo_state :: state where
  "demo_state = init [''workspace''] [''root''] demo_fs"


subsection \<open>Vocabulary of the credential claims\<close>

text \<open>
  The allow-list test as the code makes it: the scheme is http or https and the network
  location, trimmed and lower-cased, is \<^verbatim>\<open>github.com\<close> or \<^verbatim>\<open>www.github.com\<close>.
\<close>

definition token_applies :: "ext \<Rightarrow> string \<Rightarrow> bool" where
  "token_applies X url =
     (case urlparse X url of
        None \<Rightarrow> False
      | Some (scheme, netloc) \<Rightarrow>
          (scheme = ''http'' \<or> scheme = ''https'')
          \<and> (lower (strip netloc) = ''github.com'' \<or> lower (strip netloc) = ''www.github.com''))"

text \<open>
  The host of a network location without brackets, as \<^verbatim>\<open>urlparse(url).hostname\<close>
  gives it: what follows the last \<^verbatim>\<open>@\<close>, up to the first colon, lower-cased.
\<close>

definition hostname_of :: "string \<Rightarrow> string" where
  "hostname_of netloc =
     lower (takeWhile (\<lambda>c. c \<noteq> CHR '':'')
              (rev (takeWhile (\<lambda>c. c \<noteq> CHR ''@'') (rev netloc))))"

text \<open>The value a returned environment gives a variable; nothing when the call raised.\<close>

definition result_env :: "(error + env) \<times> state \<Rightarrow> string \<Rightarrow> string option" where
  "result_env r k = (case fst r of Inl e \<Rightarrow> None | Inr env \<Rightarrow> env k)"

text \<open>
  States for the examples: the agent home \<^verbatim>\<open>/root/.claude\<close> occupied by a plain file,
  and by a link to the persistent data with an askpass script in place; an outside world
  whose home directory can be read but not written, so that the entry
  \<^verbatim>\<open>/root/.claude\<close> cannot be removed.
\<close>

definition home_file_state :: state where
  "home_file_state = demo_state\<lparr>fs := demo_fs([''root'', ''.claude''] \<mapsto> File ''{}'' 420)\<rparr>"

definition linked_state :: state where
  "linked_state =
     demo_state\<lparr>fs := demo_fs([''workspace'', ''.claude_data''] \<mapsto> Dir,
                              [''root'', ''.claude''] \<mapsto> Symlink [''workspace'', ''.claude_data''],
                              [''tmp'', ''poco-git-askpass-0''] \<mapsto> File askpass_script 448),
                git_askpass_path := Some [''tmp'', ''poco-git-askpass-0'']\<rparr>"

definition readonly_home_ext :: ext where
  "readonly_home_ext =
     demo_ext\<lparr>access := (\<lambda>p. if p = [''root'', ''.claude''] then ReadOnly else Writable)\<rparr>"

subsection \<open>Vocabulary of the convergence claims\<close>

text \<open>
  What \<^verbatim>\<open>_prepare_repository\<close> passes on: the trimmed URL, and the trimmed token
  with the empty token turned into \<^verbatim>\<open>None\<close>.
\<close>

definition config_url :: "TaskConfig \<Rightarrow> string" where
  "config_url config = strip (case repo_url config of None \<Rightarrow> [] | Some u \<Rightarrow> u)"

definition config_token :: "TaskConfig \<Rightarrow> string option" where
  "config_token config =
     (let tok = strip (case git_token config of None \<Rightarrow> [] | Some t \<Rightarrow> t)
      in if tok = [] then None else Some tok)"

text \<open>The git calls among the recorded events.\<close>

fun git_calls :: "event list \<Rightarrow> git_call list" where
  "git_calls [] = []"
| "git_calls (Phase ph # es) = git_calls es"
| "git_calls (Git g # es) = g # git_calls es"

text \<open>
  The part of \<^verbatim>\<open>prepare\<close> that comes before the repository phase (the mount is
  created when missing, then the persistence linker runs) and the part that comes after
  it (the working path is set, then the inputs linker and the exclude maintainer run).
\<close>

definition before_repository :: "ext \<Rightarrow> state \<Rightarrow> (error + unit) \<times> state" where
  "before_repository X s =
     (case (case path_exists (access X) (fs s) (root_path s) of
              Inl e \<Rightarrow> (Some e, fs s)
            | Inr ex \<Rightarrow>
                if \<not> ex then path_mkdir (access X) True True (root_path s) (fs s)
                else (None, fs s)) of
        (Some e, F0) \<Rightarrow> (Inl e, s\<lparr>fs := F0\<rparr>)
      | (None, F0) \<Rightarrow> setup_session_persistence X (s\<lparr>fs := F0\<rparr>))"

definition finish_prepare :: "ext \<Rightarrow> path \<Rightarrow> state \<Rightarrow> (error + unit) \<times> state" where
  "finish_prepare X p s2 =
     (let s3 = s2\<lparr>work_path := p\<rparr>
      in case ensure_inputs_dir X (work_path s3) s3 of
           (Inl e, s4) \<Rightarrow> (Inl e, s4)
         | (Inr u, s4) \<Rightarrow> ensure_git_excludes X (work_path s4) s4)"

text \<open>
  For the examples: a mount where \<^verbatim>\<open>/workspace/demo\<close> is a repository already and
  one where it is a plain directory; configurations for the demo repository and for a
  repository named \<^verbatim>\<open>.claude_data\<close>; outside worlds where the temporary askpass
  file cannot be created, where \<^verbatim>\<open>/workspace/demo\<close> cannot be looked up, and where
  every fetch fails.
\<close>

definition cloned_state :: state where
  "cloned_state =
     demo_state\<lparr>fs := demo_fs([''workspace'', ''demo''] \<mapsto> Dir,
                              [''workspace'', ''demo'', ''.git''] \<mapsto> Dir)\<rparr>"

definition plain_dir_state :: state where
  "plain_dir_state = demo_state\<lparr>fs := demo_fs([''workspace'', ''demo''] \<mapsto> Dir)\<rparr>"

definition demo_config :: "string option \<Rightarrow> TaskConfig" where
  "demo_config branch =
     \<lparr> repo_url = Some ''https://github.com/acme/demo.git'',
       git_branch = branch,
       git_token = None \<rparr>"

definition token_config :: TaskConfig where
  "token_config =
     \<lparr> repo_url = Some ''https://github.com/acme/demo.git'',
       git_branch = None,
       git_token = Some ''abc'' \<rparr>"

definition claude_data_config :: TaskConfig where
  "claude_data_config =
     \<lparr> repo_url = Some ''https://github.com/acme/.claude_data'',
       git_branch = None,
       git_token = None \<rparr>"

definition no_tmp_ext :: ext where
  "no_tmp_ext =
     demo_ext\<lparr>access := (\<lambda>p. if p = [''tmp'', ''poco-git-askpass-0''] then ReadOnly
                              else Writable)\<rparr>"

definition hidden_demo_ext :: ext where
  "hidden_demo_ext =
     demo_ext\<lparr>access := (\<lambda>p. if p = [''workspace'', ''demo''] then Unsearchable
                              else Writable)\<rparr>"

definition failing_fetch_ext :: ext where
  "failing_fetch_ext =
     demo_ext\<lparr>fetch := (\<lambda>remote branch cwd env F.
                           (Some (GitCommandError ''fatal: could not read from remote''), F))\<rparr>"

subsection \<open>Vocabulary of the ordering claim\<close>

text \<open>The phases among the recorded events.\<close>

fun phases :: "event list \<Rightarrow> phase list" where
  "phases [] = []"
| "phases (Phase ph # es) = ph # phases es"
| "phases (Git g # es) = phases es"

text \<open>
  The order of the specification's control flow, steps 1, 2, 5, 6: as \<^verbatim>\<open>prepare\<close>,
  but with the exclude-file maintainer before the inputs-directory linker.
\<close>

definition prepare_spec_order :: "ext \<Rightarrow> TaskConfig \<Rightarrow> state \<Rightarrow> (error + unit) \<times> state" where
  "prepare_spec_order X config s =
     (case before_repository X s of
        (Inl e, s1) \<Rightarrow> (Inl e, s1)
      | (Inr u, s1) \<Rightarrow>
          (case prepare_repository X config s1 of
             (Inl e, s2) \<Rightarrow> (Inl e, s2)
           | (Inr p, s2) \<Rightarrow>
               (let s3 = s2\<lparr>work_path := p\<rparr>
                in case ensure_git_excludes X (work_path s3) s3 of
                     (Inl e, s4) \<Rightarrow> (Inl e, s4)
                   | (Inr u, s4) \<Rightarrow> ensure_inputs_dir X (work_path s4) s4)))"

text \<open>
  A mount that is a linked work tree: git takes it for a repository, and its
  \<^verbatim>\<open>.git\<close> is a file.
\<close>

definition worktree_ext :: ext where
  "worktree_ext = demo_ext\<lparr>is_repository := (\<lambda>F p. F (p @ [''.git'']) \<noteq> None)\<rparr>"

definition worktree_state :: state where
  "worktree_state =
     demo_state\<lparr>fs := demo_fs([''workspace'', ''.git'']
                                \<mapsto> File ''gitdir: /srv/main/.git/worktrees/workspace'' 420)\<rparr>"

definition no_repo_config :: TaskConfig where
  "no_repo_config = \<lparr> repo_url = None, git_branch = None, git_token = None \<rparr>"

subsection \<open>Vocabulary of the askpass claim\<close>

text \<open>
  Permission bits that give the owner read, write and execute (octal 700) and nobody else
  anything (octal 077).
\<close>

definition owner_rwx_only :: "nat \<Rightarrow> bool" where
  "owner_rwx_only m = (m AND 448 = 448 \<and> m AND 63 = 0)"

text \<open>
  The state of the askpass script: where a path is remembered, the entry under it is
  either gone or the file with the fixed script and the owner-only bits.
\<close>

definition askpass_ok :: "state \<Rightarrow> bool" where
  "askpass_ok s =
     (case git_askpass_path s of
        None \<Rightarrow> True
      | Some p \<Rightarrow>
          fs s p = None
          \<or> fs s p = Some (File askpass_script (S_IRUSR OR S_IWUSR OR S_IXUSR)))"

text \<open>
  For the inputs linker: a repository directory \<^verbatim>\<open>/workspace/demo\<close> on the demo mount,
  and an outside world in which that directory cannot be searched, so that looking up
  \<^verbatim>\<open>/workspace/demo/inputs\<close> is refused.
\<close>

definition repo_dir_state :: state where
  "repo_dir_state = demo_state\<lparr>fs := demo_fs([''workspace'', ''demo''] \<mapsto> Dir)\<rparr>"

definition closed_repo_ext :: ext where
  "closed_repo_ext =
     demo_ext\<lparr>access :=
       (\<lambda>p. if p = [''workspace'', ''demo'', ''inputs''] then Unsearchable else Writable)\<rparr>"

section \<open>Path derivation stays below the mount\<close>

lemma hd_py_split1: "hd (py_split1 sep s) = takeWhile (\<lambda>c. c \<noteq> sep) s"
proof (cases "dropWhile (\<lambda>c. c \<noteq> sep) s")
  case Nil
  have "takeWhile (\<lambda>c. c \<noteq> sep) s @ dropWhile (\<lambda>c. c \<noteq> sep) s = s"
    by (rule takeWhile_dropWhile_id)
  then have tw: "takeWhile (\<lambda>c. c \<noteq> sep) s = s" unfolding Nil by simp
  show ?thesis unfolding py_split1_def Nil by (simp add: tw)
next
  case (Cons a rest)
  show ?thesis unfolding py_split1_def Cons by simp
qed

lemma takeWhile_takeWhile: "takeWhile P (takeWhile Q xs) = takeWhile (\<lambda>x. Q x \<and> P x) xs"
  by (induction xs) auto

lemma py_split_nonempty: "py_split sep s \<noteq> []"
  by (induction s) (auto split: list.splits)

lemma py_split_no_sep: "sep \<notin> set s \<Longrightarrow> py_split sep s = [s]"
  by (induction s) auto

lemma py_split_sep_length: "sep \<in> set s \<Longrightarrow> 2 \<le> length (py_split sep s)"
proof (induction s)
  case Nil
  then show ?case by simp
next
  case (Cons c s)
  show ?case
  proof (cases "c = sep")
    case True
    then show ?thesis using py_split_nonempty[of sep s]
      by (cases "py_split sep s") auto
  next
    case False
    with Cons.prems have "sep \<in> set s" by simp
    from Cons.IH[OF this] False show ?thesis
      by (cases "py_split sep s") auto
  qed
qed

lemma last_py_split_Cons:
  "sep \<in> set s \<Longrightarrow> last (py_split sep (c # s)) = last (py_split sep s)"
  using py_split_sep_length[of sep s]
  by (cases "py_split sep s") (auto split: list.splits)

lemma last_py_split: "last (py_split sep s) = rev (takeWhile (\<lambda>c. c \<noteq> sep) (rev s))"
proof (induction s)
  case Nil
  then show ?case by simp
next
  case (Cons c s)
  show ?case
  proof (cases "sep \<in> set s")
    case True
    then show ?thesis using Cons last_py_split_Cons[OF True, of c]
      by (auto simp: takeWhile_append)
  next
    case False
    then have all: "\<forall>x\<in>set (rev s). x \<noteq> sep" by auto
    show ?thesis
    proof (cases "c = sep")
      case True
      then show ?thesis using False py_split_no_sep[OF False] all
        by (simp add: takeWhile_append)
    next
      case False2: False
      then have "sep \<notin> set (c # s)" using False by auto
      from py_split_no_sep[OF this] show ?thesis using all False2
        by (simp add: takeWhile_append)
    qed
  qed
qed

lemma name_of_clean:
  "(let name = (if clean \<noteq> [] then last (py_split CHR ''/'' clean) else ''repo'');
        name = (if endswith name ''.git''
                then take (length name - length ''.git'') name else name);
        name = (if name = [] \<or> name \<in> {''.'', ''..''} then ''repo'' else name)
    in name) =
   (let segment = rev (takeWhile (\<lambda>c. c \<noteq> CHR ''/'') (rev clean));
        base = (if suffix ''.git'' segment then take (length segment - 4) segment else segment)
    in if base = [] \<or> base = ''.'' \<or> base = ''..'' then ''repo'' else base)"
proof (cases "clean = []")
  case True
  then show ?thesis by (simp add: endswith_def suffix_def)
next
  case False
  have four: "(4::nat) = Suc (Suc (Suc (Suc 0)))" by simp
  from False show ?thesis by (simp add: Let_def last_py_split endswith_def four)
qed

lemma derive_repo_name_spec: "derive_repo_name url = spec_repo_name url"
proof -
  have c1: "rstrip_char CHR ''/'' (hd (py_split1 CHR ''#'' (hd (py_split1 CHR ''?'' url))))
              = rev (dropWhile (\<lambda>c. c = CHR ''/'')
        (rev (takeWhile (\<lambda>c. c \<noteq> CHR ''?'' \<and> c \<noteq> CHR ''#'') url)))"
    by (simp only: hd_py_split1 takeWhile_takeWhile rstrip_char_def)
  show ?thesis
    unfolding derive_repo_name_def spec_repo_name_def Let_def c1
    by (rule name_of_clean[unfolded Let_def])
qed

lemma spec_repo_name_no_slash: "CHR ''/'' \<notin> set (spec_repo_name url)"
proof -
  define seg where "seg = rev (takeWhile (\<lambda>c. c \<noteq> CHR ''/'')
     (rev (rev (dropWhile (\<lambda>c. c = CHR ''/'')
        (rev (takeWhile (\<lambda>c. c \<noteq> CHR ''?'' \<and> c \<noteq> CHR ''#'') url))))))"
  have seg: "CHR ''/'' \<notin> set seg"
    unfolding seg_def set_rev using set_takeWhileD by fastforce
  then have tk: "CHR ''/'' \<notin> set (take n seg)" for n
    using in_set_takeD by fastforce
  have "spec_repo_name url =
          (let base = (if suffix ''.git'' seg then take (length seg - 4) seg else seg)
           in if base = [] \<or> base = ''.'' \<or> base = ''..'' then ''repo'' else base)"
    unfolding spec_repo_name_def seg_def Let_def by (rule refl)
  then show ?thesis using seg tk by (simp add: Let_def)
qed

lemma spec_repo_name_proper: "spec_repo_name url \<notin> {[], ''.'', ''..''}"
  by (auto simp: spec_repo_name_def Let_def)

lemma path_join_child:
  assumes "n \<noteq> []" "n \<noteq> ''.''" "CHR ''/'' \<notin> set n"
  shows "path_join root n = root @ [n]"
proof -
  from assms obtain c cs where n: "n = c # cs" by (cases n) auto
  with assms have "c \<noteq> CHR ''/''" by auto
  then show ?thesis using assms n py_split_no_sep[OF assms(3)]
    by (simp add: path_join_def parse_parts_def)
qed

text \<open>
  C4.  The derived path is computed from the URL alone, by the steps the specification
  names (query string and fragment cut, trailing slashes dropped, final segment kept, one
  trailing \<^verbatim>\<open>.git\<close> dropped, \<^verbatim>\<open>repo\<close> as the fallback), and it is the mount
  path extended by exactly one component that is neither empty nor \<^verbatim>\<open>.\<close> nor
  \<^verbatim>\<open>..\<close> and holds no slash: a strict child of the mount, for every URL.
\<close>

theorem derive_repo_path_strict_child:
  "derive_repo_path root url = root @ [spec_repo_name url]
   \<and> spec_repo_name url \<noteq> [] \<and> spec_repo_name url \<noteq> ''.'' \<and> spec_repo_name url \<noteq> ''..''
   \<and> CHR ''/'' \<notin> set (spec_repo_name url)"
  using spec_repo_name_proper[of url] spec_repo_name_no_slash[of url]
  by (simp add: derive_repo_path_def derive_repo_name_spec path_join_child)

section \<open>Lookups and the demo mount\<close>

lemma follow_Suc_entry:
  "acc p \<noteq> Unsearchable \<Longrightarrow> \<forall>t. F p \<noteq> Some (Symlink t) \<Longrightarrow> follow (Suc n) acc F p = Inr p"
  by (auto split: option.splits node.splits)

lemma SYMLOOP_MAX_Suc: "SYMLOOP_MAX = Suc 39"
  by (simp add: SYMLOOP_MAX_def)

lemma follow_entry:
  assumes "acc p \<noteq> Unsearchable" "\<forall>t. F p \<noteq> Some (Symlink t)"
  shows "follow SYMLOOP_MAX acc F p = Inr p"
  unfolding SYMLOOP_MAX_Suc using assms by (rule follow_Suc_entry)

lemma follow_Suc_unsearchable:
  "acc p = Unsearchable \<Longrightarrow> follow (Suc n) acc F p = Inl PermissionError"
  by simp

lemma follow_unsearchable:
  assumes "acc p = Unsearchable"
  shows "follow SYMLOOP_MAX acc F p = Inl PermissionError"
  unfolding SYMLOOP_MAX_Suc using assms by (rule follow_Suc_unsearchable)

lemma os_stat_entry:
  "acc p \<noteq> Unsearchable \<Longrightarrow> \<forall>t. F p \<noteq> Some (Symlink t) \<Longrightarrow>
   os_stat acc F p = (case F p of None \<Rightarrow> Inl FileNotFoundError | Some n \<Rightarrow> Inr n)"
  by (simp add: os_stat_def follow_entry)

lemma path_exists_entry:
  "acc p \<noteq> Unsearchable \<Longrightarrow> \<forall>t. F p \<noteq> Some (Symlink t) \<Longrightarrow>
   path_exists acc F p = Inr (F p \<noteq> None)"
  by (simp add: path_exists_def os_stat_entry ignore_error_def split: option.splits)

lemma path_exists_unsearchable:
  "acc p = Unsearchable \<Longrightarrow> path_exists acc F p = Inl PermissionError"
  by (simp add: path_exists_def os_stat_def follow_unsearchable ignore_error_def ELOOP_def)

lemma is_dir_entry:
  "acc p \<noteq> Unsearchable \<Longrightarrow> \<forall>t. F p \<noteq> Some (Symlink t) \<Longrightarrow>
   is_dir acc F p = Inr (F p = Some Dir)"
  by (simp add: is_dir_def os_stat_entry ignore_error_def split: option.splits)

lemma is_symlink_searchable:
  "acc p \<noteq> Unsearchable \<Longrightarrow>
   is_symlink acc F p = Inr (case F p of Some (Symlink t) \<Rightarrow> True | _ \<Rightarrow> False)"
  by (simp add: is_symlink_def os_lstat_def ignore_error_def split: option.splits)

lemma parent_error_dir:
  "acc (butlast p) \<noteq> Unsearchable \<Longrightarrow> F (butlast p) = Some Dir \<Longrightarrow> parent_error acc F p = None"
  by (simp add: parent_error_def os_stat_entry)

lemma demo_paths:
  "root_path demo_state = [''workspace'']"
  "work_path demo_state = [''workspace'']"
  "inputs_root demo_state = [''workspace'', ''inputs'']"
  "persistent_claude_data demo_state = [''workspace'', ''.claude_data'']"
  "system_claude_home demo_state = [''root'', ''.claude'']"
  "git_askpass_path demo_state = None"
  "fs demo_state = demo_fs"
  "trace demo_state = []"
  by (simp_all add: demo_state_def init_def path_join_child)

lemma demo_access: "access demo_ext p = Writable"
  by (simp add: demo_ext_def)

lemma mode_rwx: "S_IRUSR OR S_IWUSR OR S_IXUSR = 448"
  by (simp add: S_IRUSR_def S_IWUSR_def S_IXUSR_def)

section \<open>Credential environment\<close>

lemma create_git_askpass_path:
  "create_git_askpass X s = (Inr p, s') \<Longrightarrow> git_askpass_path s' = Some p"
  by (auto simp: create_git_askpass_def split: sum.splits prod.splits)

lemma ensure_git_askpass_path:
  "ensure_git_askpass X s = (Inr p, s') \<Longrightarrow> git_askpass_path s' = Some p"
  by (auto simp: ensure_git_askpass_def create_git_askpass_path
      split: option.splits if_splits sum.splits)

lemma build_git_env_no_token:
  "token = None \<or> token = Some [] \<Longrightarrow>
   build_git_env X url token s = (Inr [''GIT_TERMINAL_PROMPT'' \<mapsto> ''0''], s)"
  by (auto simp: build_git_env_def)

lemma build_git_env_withheld:
  "\<not> token_applies X url \<Longrightarrow>
   build_git_env X url token s = (Inr [''GIT_TERMINAL_PROMPT'' \<mapsto> ''0''], s)"
  by (auto simp: build_git_env_def token_applies_def Let_def split: option.splits)

lemma build_git_env_applied:
  assumes "tok \<noteq> []" "token_applies X url"
  shows "build_git_env X url (Some tok) s =
     (case ensure_git_askpass X s of
        (Inl e, s1) \<Rightarrow> (Inl e, s1)
      | (Inr askpass, s1) \<Rightarrow>
          (Inr [''GIT_TERMINAL_PROMPT'' \<mapsto> ''0'',
                ''GIT_ASKPASS'' \<mapsto> str_path askpass,
                ''POCO_GIT_USERNAME'' \<mapsto> ''x-access-token'',
                ''POCO_GIT_TOKEN'' \<mapsto> tok], s1))"
  using assms
  by (auto simp: build_git_env_def token_applies_def Let_def split: option.splits)


lemma demo_urlsplit:
  "urlsplit_scheme_netloc ''https://github.com/acme/repo'' = Some (''https'', ''github.com'')"
  "urlsplit_scheme_netloc ''https://gitlab.com/acme/repo'' = Some (''https'', ''gitlab.com'')"
  "urlsplit_scheme_netloc ''https://github.com:443/acme/repo''
     = Some (''https'', ''github.com:443'')"
  "urlsplit_scheme_netloc ''https://github.com /acme/repo'' = Some (''https'', ''github.com '')"
  by (simp_all add: urlsplit_scheme_netloc_def is_ascii_alpha_def is_scheme_char_def lower_def
      lower_char_def Let_def char_of_def)

lemma demo_token_applies:
  "token_applies demo_ext ''https://github.com/acme/repo''"
  "\<not> token_applies demo_ext ''https://gitlab.com/acme/repo''"
  "\<not> token_applies demo_ext ''https://github.com:443/acme/repo''"
  "token_applies demo_ext ''https://github.com /acme/repo''"
  by (simp_all add: token_applies_def demo_ext_def demo_urlsplit lower_def lower_char_def
      strip_def is_space_def)

lemma mkstemp_result:
  "mkstemp X F = Inr (p, F1) \<Longrightarrow>
   p = mkstemp_name X F \<and> F p = None \<and> access X p = Writable \<and> F1 = F(p \<mapsto> File [] 384)"
  by (auto simp: mkstemp_def Let_def split: if_splits option.splits)

lemma write_text_file:
  "acc p \<noteq> Unsearchable \<Longrightarrow> F p = Some (File c m) \<Longrightarrow>
   write_text acc p data F =
     (if acc p \<noteq> Writable then Inl PermissionError else Inr (F(p \<mapsto> File data m)))"
  by (simp add: write_text_def follow_entry)

lemma chmod_file:
  "acc p \<noteq> Unsearchable \<Longrightarrow> F p = Some (File c m) \<Longrightarrow>
   chmod acc p mode F =
     (if acc p \<noteq> Writable then Inl PermissionError else Inr (F(p \<mapsto> File c mode)))"
  by (simp add: chmod_def follow_entry)

lemma create_git_askpass_result:
  "create_git_askpass X s =
     (case mkstemp X (fs s) of
        Inl e \<Rightarrow> (Inl e, s)
      | Inr (p, F1) \<Rightarrow>
          (Inr p, s\<lparr>fs := (fs s)(p \<mapsto> File askpass_script 448), git_askpass_path := Some p\<rparr>))"
proof (cases "mkstemp X (fs s)")
  case (Inl e)
  then show ?thesis by (simp add: create_git_askpass_def)
next
  case (Inr pf)
  obtain p F1 where pf: "pf = (p, F1)" by (cases pf)
  from mkstemp_result[OF Inr[unfolded pf]]
  have p: "F1 = (fs s)(p \<mapsto> File [] 384)" "access X p = Writable" by auto
  have w: "write_text (access X) p askpass_script F1 = Inr (F1(p \<mapsto> File askpass_script 384))"
    using write_text_file[of "access X" p F1 "[]" 384 askpass_script] p by simp
  have c: "chmod (access X) p 448 (F1(p \<mapsto> File askpass_script 384)) =
             Inr (F1(p \<mapsto> File askpass_script 384, p \<mapsto> File askpass_script 448))"
    using chmod_file[of "access X" p "F1(p \<mapsto> File askpass_script 384)" askpass_script 384 448] p
    by simp
  show ?thesis
    using Inr pf w c p by (simp add: create_git_askpass_def mode_rwx)
qed

lemma demo_mkstemp:
  "mkstemp demo_ext demo_fs =
     Inr ([''tmp'', ''poco-git-askpass-0''],
          demo_fs([''tmp'', ''poco-git-askpass-0''] \<mapsto> File [] 384))"
  by (simp add: mkstemp_def demo_ext_def demo_fs_def parent_error_dir Let_def)

lemma demo_askpass:
  "ensure_git_askpass demo_ext demo_state =
     (Inr [''tmp'', ''poco-git-askpass-0''],
      demo_state\<lparr>fs := demo_fs([''tmp'', ''poco-git-askpass-0''] \<mapsto> File askpass_script 448),
                 git_askpass_path := Some [''tmp'', ''poco-git-askpass-0'']\<rparr>)"
  by (simp add: ensure_git_askpass_def create_git_askpass_result demo_paths demo_mkstemp)



section \<open>Session persistence\<close>

text \<open>
  C3 fails where the agent home is a plain file: the file exists and is no link, so
  \<^verbatim>\<open>shutil.rmtree\<close> is called on it and raises \<^verbatim>\<open>NotADirectoryError\<close>; the
  persistent directory has been created, the file is still there and no link is made.
\<close>

theorem setup_session_persistence_plain_file:
  "fst (setup_session_persistence demo_ext home_file_state) = Inl NotADirectoryError
   \<and> fs (snd (setup_session_persistence demo_ext home_file_state)) [''root'', ''.claude'']
       = Some (File ''{}'' 420)"
  by (simp add: setup_session_persistence_def home_file_state_def demo_paths log_event_def
      demo_access demo_fs_def path_mkdir.simps os_mkdir_def parent_error_dir path_exists_entry
      is_symlink_searchable rmtree_def Let_def)

section \<open>Cleanup\<close>

text \<open>
  C6 fails where the agent home is a link that the home directory does not let go: the
  call \<^verbatim>\<open>self.system_claude_home.unlink()\<close> stands outside every handler, so the
  error of the removal leaves \<^verbatim>\<open>cleanup\<close>; the link and the askpass script are
  still there.
\<close>

theorem cleanup_raises_when_unlink_refused:
  "fst (cleanup readonly_home_ext linked_state) = Inl PermissionError
   \<and> fs (snd (cleanup readonly_home_ext linked_state)) [''root'', ''.claude'']
       = Some (Symlink [''workspace'', ''.claude_data''])
   \<and> fs (snd (cleanup readonly_home_ext linked_state)) [''tmp'', ''poco-git-askpass-0'']
       = Some (File askpass_script 448)"
  by (simp add: cleanup_def readonly_home_ext_def linked_state_def demo_paths demo_ext_def
      demo_fs_def is_symlink_searchable unlink_def)

section \<open>Repository convergence\<close>

lemma git_calls_append: "git_calls (xs @ ys) = git_calls xs @ git_calls ys"
  by (induction xs rule: git_calls.induct) auto

lemma prepare_unfold:
  "prepare X config s =
     (case before_repository X s of
        (Inl e, s1) \<Rightarrow> (Inl e, s1)
      | (Inr u, s1) \<Rightarrow>
          (case prepare_repository X config s1 of
             (Inl e, s2) \<Rightarrow> (Inl e, s2)
           | (Inr p, s2) \<Rightarrow> finish_prepare X p s2))"
  by (simp add: prepare_def before_repository_def finish_prepare_def
      split: prod.split option.split sum.split)

lemma prepare_repository_url:
  "config_url config \<noteq> [] \<Longrightarrow>
   prepare_repository X config s =
     ensure_cloned_repo X (config_url config) (git_branch config) (config_token config)
       (log_event (Phase PrepareRepository) s)"
  by (simp add: prepare_repository_def config_url_def config_token_def Let_def)

lemma setup_session_persistence_frame:
  "trace (snd (setup_session_persistence X s)) = trace s @ [Phase SetupSessionPersistence]"
  "root_path (snd (setup_session_persistence X s)) = root_path s"
  "work_path (snd (setup_session_persistence X s)) = work_path s"
  "git_askpass_path (snd (setup_session_persistence X s)) = git_askpass_path s"
  by (simp_all add: setup_session_persistence_def Let_def log_event_def
      split: prod.split option.split sum.split)

lemma before_repository_frame:
  assumes "before_repository X s = (r, sA)"
  shows "root_path sA = root_path s" and "git_calls (trace sA) = git_calls (trace s)"
proof -
  obtain e0 F0 where m: "(case path_exists (access X) (fs s) (root_path s) of
              Inl e \<Rightarrow> (Some e, fs s)
            | Inr ex \<Rightarrow>
                if \<not> ex then path_mkdir (access X) True True (root_path s) (fs s)
                else (None, fs s)) = (e0, F0)"
    by (cases "case path_exists (access X) (fs s) (root_path s) of
              Inl e \<Rightarrow> (Some e, fs s)
            | Inr ex \<Rightarrow>
                if \<not> ex then path_mkdir (access X) True True (root_path s) (fs s)
                else (None, fs s)")
  show "root_path sA = root_path s" and "git_calls (trace sA) = git_calls (trace s)"
    using assms setup_session_persistence_frame(1,2)[of X "s\<lparr>fs := F0\<rparr>"]
    unfolding before_repository_def m
    by (cases e0; auto simp: git_calls_append)+
qed

lemma ensure_inputs_dir_frame:
  "trace (snd (ensure_inputs_dir X p s)) = trace s @ [Phase (EnsureInputsDir p)]"
  "work_path (snd (ensure_inputs_dir X p s)) = work_path s"
  "root_path (snd (ensure_inputs_dir X p s)) = root_path s"
  "git_askpass_path (snd (ensure_inputs_dir X p s)) = git_askpass_path s"
  by (simp_all add: ensure_inputs_dir_def Let_def log_event_def
      split: prod.split option.split sum.split)

lemma ensure_git_excludes_frame:
  "trace (snd (ensure_git_excludes X p s)) = trace s @ [Phase (EnsureGitExcludes p)]"
  "work_path (snd (ensure_git_excludes X p s)) = work_path s"
  "root_path (snd (ensure_git_excludes X p s)) = root_path s"
  "git_askpass_path (snd (ensure_git_excludes X p s)) = git_askpass_path s"
  by (simp_all add: ensure_git_excludes_def Let_def log_event_def
      split: prod.split option.split sum.split)

lemma finish_prepare_calls:
  "git_calls (trace (snd (finish_prepare X p s))) = git_calls (trace s)"
proof -
  let ?s3 = "s\<lparr>work_path := p\<rparr>"
  obtain r4 s4 where a: "ensure_inputs_dir X p ?s3 = (r4, s4)"
    by (cases "ensure_inputs_dir X p ?s3")
  have t4: "git_calls (trace s4) = git_calls (trace s)"
    using ensure_inputs_dir_frame(1)[of X p ?s3] a by (simp add: git_calls_append)
  show ?thesis
    using a t4 ensure_git_excludes_frame(1)[of X "work_path s4" s4]
    by (cases r4) (simp_all add: finish_prepare_def git_calls_append)
qed

lemma create_git_askpass_effect:
  assumes "create_git_askpass X s = (r, s1)"
  shows "trace s1 = trace s \<and> root_path s1 = root_path s
         \<and> (\<forall>q. fs s1 q = fs s q \<or> fs s q = None \<and> q = mkstemp_name X (fs s))"
proof (cases "mkstemp X (fs s)")
  case (Inl e)
  with assms show ?thesis by (simp add: create_git_askpass_result)
next
  case (Inr pf)
  obtain p F1 where pf: "pf = (p, F1)" by (cases pf)
  from mkstemp_result[OF Inr[unfolded pf]] assms Inr pf show ?thesis
    by (auto simp: create_git_askpass_result split: if_splits)
qed

lemma ensure_git_askpass_effect:
  assumes "ensure_git_askpass X s = (r, s1)"
  shows "trace s1 = trace s \<and> root_path s1 = root_path s
         \<and> (\<forall>q. fs s1 q = fs s q \<or> fs s q = None \<and> q = mkstemp_name X (fs s))"
  using assms create_git_askpass_effect[of X s r s1]
  by (auto simp: ensure_git_askpass_def split: option.splits sum.splits if_splits)

lemma build_git_env_effect:
  assumes "build_git_env X url token s = (r, s1)"
  shows "trace s1 = trace s \<and> root_path s1 = root_path s
         \<and> (\<forall>q. fs s1 q = fs s q \<or> fs s q = None \<and> q = mkstemp_name X (fs s))"
proof (cases "token = None \<or> token = Some [] \<or> \<not> token_applies X url")
  case True
  with assms show ?thesis
    by (auto simp: build_git_env_no_token build_git_env_withheld)
next
  case False
  then obtain tok where tok: "token = Some tok" "tok \<noteq> []" "token_applies X url" by auto
  obtain r' s' where a: "ensure_git_askpass X s = (r', s')" by (cases "ensure_git_askpass X s")
  with assms tok have "s1 = s'"
    by (auto simp: build_git_env_applied split: sum.splits)
  with ensure_git_askpass_effect[OF a] show ?thesis by simp
qed

lemma prepare_phase_effect:
  assumes "build_git_env X url token (log_event (Phase PrepareRepository) s) = (r, s1)"
  shows "git_calls (trace s1) = git_calls (trace s)"
    and "trace s1 = trace s @ [Phase PrepareRepository]"
    and "\<forall>q. fs s1 q = fs s q \<or> fs s q = None \<and> q = mkstemp_name X (fs s)"
    and "root_path s1 = root_path s"
  using build_git_env_effect[OF assms]
  by (simp_all add: log_event_def git_calls_append)

text \<open>
  The repository phase once the credential environment is built and the target path has
  been looked up, written out down to the calls of the git layer.
\<close>

lemma prepare_repository_unfold:
  assumes url: "config_url config \<noteq> []"
    and b: "build_git_env X (config_url config) (config_token config)
              (log_event (Phase PrepareRepository) s) = (Inr env, s1)"
    and look: "path_exists (access X) (fs s1)
                 (derive_repo_path (root_path s) (config_url config)) = Inr ex"
  shows "prepare_repository X config s =
       (if ex \<and> is_repository X (fs s1) (derive_repo_path (root_path s) (config_url config)) then
          (case git_branch config of
             None \<Rightarrow> (Inr (derive_repo_path (root_path s) (config_url config)), s1)
           | Some b \<Rightarrow>
               if b = [] then (Inr (derive_repo_path (root_path s) (config_url config)), s1)
               else
                 (case fetch X ''origin'' b (derive_repo_path (root_path s) (config_url config))
                         (Some env) (fs s1) of
                    (Some exc, F) \<Rightarrow>
                      (Inl (checkout_failure b
                              (derive_repo_path (root_path s) (config_url config)) exc),
                       s1\<lparr>fs := F,
                          trace := trace s1 @
                            [Git (Fetch ''origin'' b
                                    (derive_repo_path (root_path s) (config_url config))
                                    (Some env))]\<rparr>)
                  | (None, F) \<Rightarrow>
                      (case checkout X b (derive_repo_path (root_path s) (config_url config)) F of
                         (Some exc, F') \<Rightarrow>
                           (Inl (checkout_failure b
                                   (derive_repo_path (root_path s) (config_url config)) exc),
                            s1\<lparr>fs := F',
                               trace := trace s1 @
                                 [Git (Fetch ''origin'' b
                                         (derive_repo_path (root_path s) (config_url config))
                                         (Some env)),
                                  Git (Checkout b
                                         (derive_repo_path (root_path s) (config_url config)))]\<rparr>)
                       | (None, F') \<Rightarrow>
                           (Inr (derive_repo_path (root_path s) (config_url config)),
                            s1\<lparr>fs := F',
                               trace := trace s1 @
                                 [Git (Fetch ''origin'' b
                                         (derive_repo_path (root_path s) (config_url config))
                                         (Some env)),
                                  Git (Checkout b
                                         (derive_repo_path (root_path s) (config_url config)))]\<rparr>))))
        else if ex then
          (Inl (RuntimeError (''Target path exists but is not a git repository: ''
                  @ str_path (derive_repo_path (root_path s) (config_url config)))), s1)
        else
          (case clone X (config_url config)
                  (derive_repo_path (root_path s) (config_url config))
                  (git_branch config) env (fs s1) of
             (Inr p', F) \<Rightarrow>
               (Inr p',
                s1\<lparr>fs := F,
                   trace := trace s1 @
                     [Git (Clone (config_url config)
                             (derive_repo_path (root_path s) (config_url config))
                             (git_branch config) env)]\<rparr>)
           | (Inl exc, F) \<Rightarrow>
               (Inl (clone_failure (config_url config) exc),
                s1\<lparr>fs := F,
                   trace := trace s1 @
                     [Git (Clone (config_url config)
                             (derive_repo_path (root_path s) (config_url config))
                             (git_branch config) env)]\<rparr>)))"
proof -
  have p': "derive_repo_path (root_path (log_event (Phase PrepareRepository) s))
              (config_url config) = derive_repo_path (root_path s) (config_url config)"
    by (simp add: log_event_def)
  show ?thesis
    unfolding prepare_repository_url[OF url] ensure_cloned_repo_def p' b Let_def
    by (simp add: look checkout_branch_def log_event_def Let_def
        split: prod.split option.split sum.split)
qed


lemma demo_derive:
  "derive_repo_path [''workspace''] ''https://github.com/acme/demo.git''
     = [''workspace'', ''demo'']"
  "derive_repo_path [''workspace''] ''https://github.com/acme/.claude_data''
     = [''workspace'', ''.claude_data'']"
  by code_simp+

lemma demo_config_fields:
  "config_url (demo_config b) = ''https://github.com/acme/demo.git''"
  "config_token (demo_config b) = None"
  "git_branch (demo_config b) = b"
  "config_url token_config = ''https://github.com/acme/demo.git''"
  "config_token token_config = Some ''abc''"
  "git_branch token_config = None"
  "config_url claude_data_config = ''https://github.com/acme/.claude_data''"
  "config_token claude_data_config = None"
  "git_branch claude_data_config = None"
  by (simp_all add: config_url_def config_token_def demo_config_def token_config_def
      claude_data_config_def strip_def is_space_def)

lemma before_repository_fresh:
  assumes acc: "access X [''workspace''] = Writable" "access X [''workspace'', ''.claude_data''] = Writable"
      "access X [''root''] = Writable" "access X [''root'', ''.claude''] = Writable"
    and F: "F [''workspace''] = Some Dir" "F [''workspace'', ''.claude_data''] = None"
      "F [''root''] = Some Dir" "F [''root'', ''.claude''] = None"
  shows "before_repository X (demo_state\<lparr>fs := F\<rparr>) =
     (Inr (),
      demo_state\<lparr>fs := F([''workspace'', ''.claude_data''] \<mapsto> Dir,
                          [''root'', ''.claude''] \<mapsto> Symlink [''workspace'', ''.claude_data'']),
                 trace := [Phase SetupSessionPersistence]\<rparr>)"
  using acc F
  by (simp add: before_repository_def setup_session_persistence_def demo_paths log_event_def
      path_exists_entry path_mkdir.simps os_mkdir_def parent_error_dir is_symlink_searchable
      symlink_to_def Let_def)

lemma demo_state_fs: "demo_state\<lparr>fs := demo_fs\<rparr> = demo_state"
  by (simp add: demo_state_def init_def)

lemma demo_fs_entries:
  "demo_fs [''workspace''] = Some Dir" "demo_fs [''root''] = Some Dir"
  "demo_fs [''tmp''] = Some Dir"
  "demo_fs [''workspace'', ''.claude_data''] = None" "demo_fs [''root'', ''.claude''] = None"
  "demo_fs [''workspace'', ''demo''] = None" "demo_fs [''workspace'', ''demo'', ''.git''] = None"
  "demo_fs [''tmp'', ''poco-git-askpass-0''] = None"
  by (simp_all add: demo_fs_def)

lemma example_access:
  "access no_tmp_ext p = (if p = [''tmp'', ''poco-git-askpass-0''] then ReadOnly else Writable)"
  "access hidden_demo_ext p = (if p = [''workspace'', ''demo''] then Unsearchable else Writable)"
  "access failing_fetch_ext p = Writable"
  by (simp_all add: no_tmp_ext_def hidden_demo_ext_def failing_fetch_ext_def demo_ext_def)

lemmas demo_eval =
  prepare_unfold prepare_repository_url demo_config_fields ensure_cloned_repo_def
  build_git_env_no_token log_event_def demo_paths demo_derive path_exists_entry
  path_exists_unsearchable str_path_def demo_fs_entries checkout_branch_def Let_def
  demo_ext_def no_tmp_ext_def hidden_demo_ext_def failing_fetch_ext_def demo_fs_def



lemma checkout_branch_none:
  "branch = None \<or> branch = Some [] \<Longrightarrow> checkout_branch X p branch env s = (Inr (), s)"
  by (auto simp: checkout_branch_def)

lemma checkout_branch_some:
  "b \<noteq> [] \<Longrightarrow>
   checkout_branch X path (Some b) e s =
     (case fetch X ''origin'' b path e (fs s) of
        (Some exc, F) \<Rightarrow>
          (Inl (checkout_failure b path exc),
           s\<lparr>fs := F, trace := trace s @ [Git (Fetch ''origin'' b path e)]\<rparr>)
      | (None, F) \<Rightarrow>
          (case checkout X b path F of
             (Some exc, F') \<Rightarrow>
               (Inl (checkout_failure b path exc),
                s\<lparr>fs := F',
                   trace := trace s @ [Git (Fetch ''origin'' b path e), Git (Checkout b path)]\<rparr>)
           | (None, F') \<Rightarrow>
               (Inr (),
                s\<lparr>fs := F',
                   trace := trace s @ [Git (Fetch ''origin'' b path e),
                                       Git (Checkout b path)]\<rparr>)))"
  by (simp add: checkout_branch_def log_event_def Let_def split: prod.split option.split)

text \<open>
  C10.  The branch is tested for emptiness and never trimmed.  With the empty string as
  branch \<^verbatim>\<open>_checkout_branch\<close> returns at once, in any state and without a call of
  the git layer; so for an existing repository the repository phase returns the path and
  the state in which it found it.  With any other branch, a branch of blanks included,
  \<^verbatim>\<open>_checkout_branch\<close> hands that very string to the fetch from \<^verbatim>\<open>origin\<close> and,
  when the fetch succeeded, to the checkout, and the repository phase returns what these
  calls made of the file system.
\<close>

theorem empty_branch_not_requested:
  fixes X config s
  defines "p \<equiv> derive_repo_path (root_path s) (config_url config)"
  assumes url: "config_url config \<noteq> []"
    and env: "build_git_env X (config_url config) (config_token config)
                (log_event (Phase PrepareRepository) s) = (Inr env, s1)"
    and look: "path_exists (access X) (fs s1) p = Inr True"
    and repo: "is_repository X (fs s1) p"
  shows "checkout_branch X path (Some []) e s' = (Inr (), s')
     \<and> (\<forall>b. b \<noteq> [] \<longrightarrow>
          checkout_branch X path (Some b) e s' =
            (case fetch X ''origin'' b path e (fs s') of
               (Some exc, F) \<Rightarrow>
                 (Inl (checkout_failure b path exc),
                  s'\<lparr>fs := F, trace := trace s' @ [Git (Fetch ''origin'' b path e)]\<rparr>)
             | (None, F) \<Rightarrow>
                 (case checkout X b path F of
                    (Some exc, F') \<Rightarrow>
                      (Inl (checkout_failure b path exc),
                       s'\<lparr>fs := F',
                           trace := trace s' @ [Git (Fetch ''origin'' b path e),
                                                Git (Checkout b path)]\<rparr>)
                  | (None, F') \<Rightarrow>
                      (Inr (),
                       s'\<lparr>fs := F',
                           trace := trace s' @ [Git (Fetch ''origin'' b path e),
                                                Git (Checkout b path)]\<rparr>))))
     \<and> (git_branch config = Some [] \<longrightarrow>
          prepare_repository X config s = (Inr p, s1)
          \<and> git_calls (trace s1) = git_calls (trace s))
     \<and> (\<forall>b. git_branch config = Some b \<and> b \<noteq> [] \<longrightarrow>
          prepare_repository X config s =
            (case fetch X ''origin'' b p (Some env) (fs s1) of
               (Some exc, F) \<Rightarrow>
                 (Inl (checkout_failure b p exc),
                  s1\<lparr>fs := F,
                      trace := trace s1 @ [Git (Fetch ''origin'' b p (Some env))]\<rparr>)
             | (None, F) \<Rightarrow>
                 (case checkout X b p F of
                    (Some exc, F') \<Rightarrow>
                      (Inl (checkout_failure b p exc),
                       s1\<lparr>fs := F',
                           trace := trace s1 @ [Git (Fetch ''origin'' b p (Some env)),
                                                Git (Checkout b p)]\<rparr>)
                  | (None, F') \<Rightarrow>
                      (Inr p,
                       s1\<lparr>fs := F',
                           trace := trace s1 @ [Git (Fetch ''origin'' b p (Some env)),
                                                Git (Checkout b p)]\<rparr>))))"
proof -
  note rep = prepare_repository_unfold[OF url env look[unfolded p_def], folded p_def]
  have 1: "checkout_branch X path (Some []) e s' = (Inr (), s')"
    by (simp add: checkout_branch_none)
  have 3: "prepare_repository X config s = (Inr p, s1)
           \<and> git_calls (trace s1) = git_calls (trace s)"
    if "git_branch config = Some []"
    using that repo prepare_phase_effect(1)[OF env] by (simp add: rep)
  have 4: "prepare_repository X config s =
            (case fetch X ''origin'' b p (Some env) (fs s1) of
               (Some exc, F) \<Rightarrow>
                 (Inl (checkout_failure b p exc),
                  s1\<lparr>fs := F,
                      trace := trace s1 @ [Git (Fetch ''origin'' b p (Some env))]\<rparr>)
             | (None, F) \<Rightarrow>
                 (case checkout X b p F of
                    (Some exc, F') \<Rightarrow>
                      (Inl (checkout_failure b p exc),
                       s1\<lparr>fs := F',
                           trace := trace s1 @ [Git (Fetch ''origin'' b p (Some env)),
                                                Git (Checkout b p)]\<rparr>)
                  | (None, F') \<Rightarrow>
                      (Inr p,
                       s1\<lparr>fs := F',
                           trace := trace s1 @ [Git (Fetch ''origin'' b p (Some env)),
                                                Git (Checkout b p)]\<rparr>)))"
    if "git_branch config = Some b" "b \<noteq> []" for b
    using that repo by (simp add: rep)
  from 1 3 4 checkout_branch_some[of _ X path e s'] show ?thesis by blast
qed

text \<open>
  On the demo mount with the repository in place: the empty branch leaves the repository
  as it is and makes no git call; the branch of one blank is fetched and checked out as
  that blank.
\<close>

theorem empty_branch_not_requested_witness:
  "prepare_repository demo_ext (demo_config (Some [])) cloned_state =
     (Inr [''workspace'', ''demo''],
      cloned_state\<lparr>trace := [Phase PrepareRepository]\<rparr>)
   \<and> prepare_repository demo_ext (demo_config (Some '' '')) cloned_state =
     (Inr [''workspace'', ''demo''],
      cloned_state\<lparr>fs := (fs cloned_state)
                            ([''workspace'', ''demo'', ''.git'', ''FETCH_HEAD'']
                               \<mapsto> File ''origin/ '' 420,
                             [''workspace'', ''demo'', ''.git'', ''HEAD'']
                               \<mapsto> File ''ref: refs/heads/ '' 420),
                   trace := [Phase PrepareRepository,
                             Git (Fetch ''origin'' '' '' [''workspace'', ''demo'']
                                    (Some [''GIT_TERMINAL_PROMPT'' \<mapsto> ''0''])),
                             Git (Checkout '' '' [''workspace'', ''demo''])]\<rparr>)"
proof -
  let ?s1 = "log_event (Phase PrepareRepository) cloned_state"
  have u: "config_url (demo_config b) \<noteq> []" for b
    by (simp add: demo_config_fields)
  have e: "build_git_env demo_ext (config_url (demo_config b)) (config_token (demo_config b))
             ?s1 = (Inr [''GIT_TERMINAL_PROMPT'' \<mapsto> ''0''], ?s1)" for b
    by (simp add: demo_config_fields build_git_env_no_token)
  have cs: "root_path cloned_state = [''workspace'']" "trace cloned_state = []"
    "fs cloned_state [''workspace'', ''demo''] = Some Dir"
    "fs cloned_state [''workspace'', ''demo'', ''.git''] = Some Dir"
    by (simp_all add: cloned_state_def demo_paths)
  have x: "path_exists (access demo_ext) (fs ?s1)
             (derive_repo_path (root_path cloned_state) (config_url (demo_config b))) = Inr True"
    for b
    by (simp add: demo_config_fields cs demo_derive log_event_def path_exists_entry demo_access)
  have r: "is_repository demo_ext (fs ?s1)
             (derive_repo_path (root_path cloned_state) (config_url (demo_config b)))" for b
    by (simp add: demo_config_fields cs demo_derive log_event_def demo_ext_def)
  have 1: "prepare_repository demo_ext (demo_config (Some [])) cloned_state =
     (Inr [''workspace'', ''demo''], cloned_state\<lparr>trace := [Phase PrepareRepository]\<rparr>)"
    using empty_branch_not_requested[OF u[of "Some []"] e[of "Some []"] x[of "Some []"]
        r[of "Some []"]]
    by (simp add: demo_config_fields cs demo_derive log_event_def)
  have 2: "prepare_repository demo_ext (demo_config (Some '' '')) cloned_state =
     (Inr [''workspace'', ''demo''],
      cloned_state\<lparr>fs := (fs cloned_state)
                            ([''workspace'', ''demo'', ''.git'', ''FETCH_HEAD'']
                               \<mapsto> File ''origin/ '' 420,
                             [''workspace'', ''demo'', ''.git'', ''HEAD'']
                               \<mapsto> File ''ref: refs/heads/ '' 420),
                   trace := [Phase PrepareRepository,
                             Git (Fetch ''origin'' '' '' [''workspace'', ''demo'']
                                    (Some [''GIT_TERMINAL_PROMPT'' \<mapsto> ''0''])),
                             Git (Checkout '' '' [''workspace'', ''demo''])]\<rparr>)"
    using empty_branch_not_requested[OF u[of "Some '' ''"] e[of "Some '' ''"]
        x[of "Some '' ''"] r[of "Some '' ''"]]
    by (simp add: demo_config_fields cs demo_derive log_event_def demo_ext_def)
  from 1 2 show ?thesis by simp
qed

section \<open>Order of the phases\<close>

lemma phases_append: "phases (xs @ ys) = phases xs @ phases ys"
  by (induction xs rule: phases.induct) auto

lemma exclude_patterns_nonempty: "exclude_patterns extra \<noteq> []"
  by (simp add: exclude_patterns_def DEFAULT_GIT_EXCLUDES_def)

lemma checkout_branch_phases:
  "phases (trace (snd (checkout_branch X p branch env s))) = phases (trace s)"
  by (simp add: checkout_branch_def Let_def log_event_def phases_append
      split: prod.split option.split)

lemma ensure_git_repo_phases:
  "phases (trace (ensure_git_repo X p s)) = phases (trace s)"
  by (simp add: ensure_git_repo_def Let_def log_event_def phases_append split: prod.split)

lemma ensure_cloned_repo_phases:
  "phases (trace (snd (ensure_cloned_repo X url branch token s))) = phases (trace s)"
proof -
  let ?p = "derive_repo_path (root_path s) url"
  obtain r s1 where b: "build_git_env X url token s = (r, s1)"
    by (cases "build_git_env X url token s")
  have t: "trace s1 = trace s" using build_git_env_effect[OF b] by simp
  show ?thesis
  proof (cases r)
    case (Inl e)
    with b t show ?thesis by (simp add: ensure_cloned_repo_def)
  next
    case (Inr env)
    note b' = b[unfolded Inr]
    show ?thesis
    proof (cases "path_exists (access X) (fs s1) ?p")
      case (Inl e)
      then show ?thesis by (simp add: ensure_cloned_repo_def b' t)
    next
      case look: (Inr ex)
      consider (repo) "ex \<and> is_repository X (fs s1) ?p"
        | (other) "ex \<and> \<not> is_repository X (fs s1) ?p"
        | (missing) "\<not> ex"
        by blast
      then show ?thesis
      proof cases
        case repo
        obtain r2 s2 where c: "checkout_branch X ?p branch (Some env) s1 = (r2, s2)"
          by (cases "checkout_branch X ?p branch (Some env) s1")
        have "phases (trace s2) = phases (trace s)"
          using checkout_branch_phases[of X ?p branch "Some env" s1] c t by simp
        moreover have "snd (ensure_cloned_repo X url branch token s) = s2"
          using repo c by (cases r2) (simp_all add: ensure_cloned_repo_def b' look)
        ultimately show ?thesis by simp
      next
        case other
        then show ?thesis by (simp add: ensure_cloned_repo_def b' look t)
      next
        case missing
        obtain r2 F2 where c: "clone X url ?p branch env (fs s1) = (r2, F2)"
          by (cases "clone X url ?p branch env (fs s1)")
        show ?thesis using missing c t
          by (cases r2)
             (simp_all add: ensure_cloned_repo_def b' look Let_def log_event_def phases_append)
      qed
    qed
  qed
qed

lemma prepare_repository_phases:
  "phases (trace (snd (prepare_repository X config s))) = phases (trace s) @ [PrepareRepository]"
  by (simp add: prepare_repository_def Let_def ensure_cloned_repo_phases ensure_git_repo_phases
      log_event_def phases_append)

text \<open>
  C9, as the code has it.  \<^verbatim>\<open>prepare\<close> returns exactly when, after the mount is
  there, the persistence linker, then the repository resolver, then the inputs-directory
  linker and last the exclude-file maintainer return, each started in the state the one
  before it left and the last two on the path that the resolver returned; its final state
  is the one the exclude-file maintainer leaves.  The phases a returning call has entered
  are these four in this order; a call that raises has entered an initial part of them.
\<close>

theorem prepare_phase_order:
  "(prepare X config s = (Inr u, s') \<longleftrightarrow>
      (\<exists>F0 s1 p s2 s4.
          (case path_exists (access X) (fs s) (root_path s) of
             Inl e \<Rightarrow> (Some e, fs s)
           | Inr ex \<Rightarrow> if \<not> ex then path_mkdir (access X) True True (root_path s) (fs s)
                        else (None, fs s)) = (None, F0)
          \<and> setup_session_persistence X (s\<lparr>fs := F0\<rparr>) = (Inr (), s1)
          \<and> prepare_repository X config s1 = (Inr p, s2)
          \<and> ensure_inputs_dir X p (s2\<lparr>work_path := p\<rparr>) = (Inr (), s4)
          \<and> ensure_git_excludes X p s4 = (Inr u, s')))
   \<and> (case prepare X config s of
         (Inr v, t) \<Rightarrow>
            phases (trace t) =
              phases (trace s) @
              [SetupSessionPersistence, PrepareRepository,
               EnsureInputsDir (work_path t), EnsureGitExcludes (work_path t)]
       | (Inl e, t) \<Rightarrow>
            phases (trace t) = phases (trace s)
            \<or> phases (trace t) = phases (trace s) @ [SetupSessionPersistence]
            \<or> phases (trace t) = phases (trace s) @ [SetupSessionPersistence, PrepareRepository]
            \<or> (\<exists>p. phases (trace t) =
                     phases (trace s) @
                     [SetupSessionPersistence, PrepareRepository, EnsureInputsDir p])
            \<or> (\<exists>p. phases (trace t) =
                     phases (trace s) @
                     [SetupSessionPersistence, PrepareRepository,
                      EnsureInputsDir p, EnsureGitExcludes p]))"
proof -
  obtain e0 F0 where m: "(case path_exists (access X) (fs s) (root_path s) of
             Inl e \<Rightarrow> (Some e, fs s)
           | Inr ex \<Rightarrow> if \<not> ex then path_mkdir (access X) True True (root_path s) (fs s)
                        else (None, fs s)) = (e0, F0)"
    by (cases "case path_exists (access X) (fs s) (root_path s) of
             Inl e \<Rightarrow> (Some e, fs s)
           | Inr ex \<Rightarrow> if \<not> ex then path_mkdir (access X) True True (root_path s) (fs s)
                        else (None, fs s)")
  let ?s0 = "s\<lparr>fs := F0\<rparr>"
  obtain r1 s1 where a: "setup_session_persistence X ?s0 = (r1, s1)"
    by (cases "setup_session_persistence X ?s0")
  obtain r2 s2 where b: "prepare_repository X config s1 = (r2, s2)"
    by (cases "prepare_repository X config s1")
  have t1: "phases (trace s1) = phases (trace s) @ [SetupSessionPersistence]"
    using setup_session_persistence_frame(1)[of X ?s0] a by (simp add: phases_append)
  have t2: "phases (trace s2) = phases (trace s) @ [SetupSessionPersistence, PrepareRepository]"
    using prepare_repository_phases[of X config s1] b t1 by simp
  show ?thesis
  proof (cases e0)
    case (Some e)
    then show ?thesis unfolding prepare_def m by simp
  next
    case None
    note m = m[unfolded None]
    show ?thesis
    proof (cases r1)
      case (Inl e)
      then show ?thesis unfolding prepare_def m using a t1 by simp
    next
      case r1: (Inr u1)
      show ?thesis
      proof (cases r2)
        case (Inl e)
        then show ?thesis unfolding prepare_def m using a r1 b t2 by simp
      next
        case r2: (Inr p)
        let ?s3 = "s2\<lparr>work_path := p\<rparr>"
        obtain r4 s4 where c: "ensure_inputs_dir X p ?s3 = (r4, s4)"
          by (cases "ensure_inputs_dir X p ?s3")
        have w4: "work_path s4 = p" using ensure_inputs_dir_frame(2)[of X p ?s3] c by simp
        have t4: "phases (trace s4) =
                    phases (trace s) @
                    [SetupSessionPersistence, PrepareRepository, EnsureInputsDir p]"
          using ensure_inputs_dir_frame(1)[of X p ?s3] c t2 by (simp add: phases_append)
        show ?thesis
        proof (cases r4)
          case (Inl e)
          then show ?thesis unfolding prepare_def m using a r1 b r2 c t4
            by (auto simp: Let_def)
        next
          case r4: (Inr u4)
          obtain r5 s5 where d: "ensure_git_excludes X p s4 = (r5, s5)"
            by (cases "ensure_git_excludes X p s4")
          have w5: "work_path s5 = p"
            using ensure_git_excludes_frame(2)[of X p s4] d w4 by simp
          have t5: "phases (trace s5) =
                      phases (trace s) @
                      [SetupSessionPersistence, PrepareRepository,
                       EnsureInputsDir p, EnsureGitExcludes p]"
            using ensure_git_excludes_frame(1)[of X p s4] d t4 by (simp add: phases_append)
          have p: "prepare X config s = (r5, s5)"
            unfolding prepare_def m using a r1 b r2 c r4 w4 d by (simp add: Let_def)
          show ?thesis
            unfolding p using t5 w5 a r1 b r2 c r4 d m
            by (cases r5) auto
        qed
      qed
    qed
  qed
qed

text \<open>
  C9 as stated fails: \<^verbatim>\<open>prepare\<close> runs the inputs-directory linker before the
  exclude-file maintainer.  On a mount that is a linked work tree the maintainer raises
  (it cannot make \<^verbatim>\<open>.git/info\<close> below a file), and by then the inputs directory has
  been created; in the order of the claim it would not have been.
\<close>

theorem prepare_phase_order_counterexample:
  "fst (prepare worktree_ext no_repo_config worktree_state) = Inl NotADirectoryError
   \<and> fs (snd (prepare worktree_ext no_repo_config worktree_state)) [''workspace'', ''inputs'']
       = Some Dir
   \<and> fs (snd (prepare_spec_order worktree_ext no_repo_config worktree_state))
         [''workspace'', ''inputs''] = None
   \<and> phases (trace (snd (prepare worktree_ext no_repo_config worktree_state))) =
       [SetupSessionPersistence, PrepareRepository,
        EnsureInputsDir [''workspace''], EnsureGitExcludes [''workspace'']]"
proof -
  let ?F = "demo_fs([''workspace'', ''.git'']
                                \<mapsto> File ''gitdir: /srv/main/.git/worktrees/workspace'' 420)"
  have acc: "access worktree_ext p = Writable" for p
    by (simp add: worktree_ext_def demo_ext_def)
  have pre: "before_repository worktree_ext worktree_state =
     (Inr (),
      demo_state\<lparr>fs := ?F([''workspace'', ''.claude_data''] \<mapsto> Dir,
                          [''root'', ''.claude''] \<mapsto> Symlink [''workspace'', ''.claude_data'']),
                 trace := [Phase SetupSessionPersistence]\<rparr>)"
    using before_repository_fresh[of worktree_ext ?F]
    by (simp add: acc demo_fs_def worktree_state_def)
  have rep: "prepare_repository worktree_ext no_repo_config
      (demo_state\<lparr>fs := ?F([''workspace'', ''.claude_data''] \<mapsto> Dir,
                          [''root'', ''.claude''] \<mapsto> Symlink [''workspace'', ''.claude_data'']),
                 trace := [Phase SetupSessionPersistence]\<rparr>) =
     (Inr [''workspace''],
      demo_state\<lparr>fs := ?F([''workspace'', ''.claude_data''] \<mapsto> Dir,
                          [''root'', ''.claude''] \<mapsto> Symlink [''workspace'', ''.claude_data'']),
                 trace := [Phase SetupSessionPersistence, Phase PrepareRepository]\<rparr>)"
    by (simp add: prepare_repository_def no_repo_config_def strip_def ensure_git_repo_def
        log_event_def demo_paths worktree_ext_def demo_ext_def Let_def)
  let ?s2 = "demo_state\<lparr>fs := ?F([''workspace'', ''.claude_data''] \<mapsto> Dir,
                          [''root'', ''.claude''] \<mapsto> Symlink [''workspace'', ''.claude_data'']),
                 trace := [Phase SetupSessionPersistence, Phase PrepareRepository]\<rparr>"
  have code1: "prepare worktree_ext no_repo_config worktree_state =
                 finish_prepare worktree_ext [''workspace''] ?s2"
    by (simp add: prepare_unfold pre rep)
  have spec1: "prepare_spec_order worktree_ext no_repo_config worktree_state =
                 (case ensure_git_excludes worktree_ext [''workspace'']
                         (?s2\<lparr>work_path := [''workspace'']\<rparr>) of
                     (Inl e, s4) \<Rightarrow> (Inl e, s4)
                   | (Inr u, s4) \<Rightarrow> ensure_inputs_dir worktree_ext (work_path s4) s4)"
    by (simp add: prepare_spec_order_def pre rep)
  have code: "prepare worktree_ext no_repo_config worktree_state =
     (Inl NotADirectoryError,
      demo_state\<lparr>fs := ?F([''workspace'', ''.claude_data''] \<mapsto> Dir,
                          [''root'', ''.claude''] \<mapsto> Symlink [''workspace'', ''.claude_data''],
                          [''workspace'', ''inputs''] \<mapsto> Dir),
                 trace := [Phase SetupSessionPersistence, Phase PrepareRepository,
                           Phase (EnsureInputsDir [''workspace'']),
                           Phase (EnsureGitExcludes [''workspace''])]\<rparr>)"
    unfolding code1
    by (simp add: finish_prepare_def ensure_inputs_dir_def ensure_git_excludes_def
      log_event_def demo_paths worktree_ext_def demo_ext_def demo_fs_def path_join_child
      path_mkdir.simps os_mkdir_def parent_error_dir parent_error_def os_stat_entry
      is_dir_entry exclude_patterns_nonempty Let_def)
  have spec: "prepare_spec_order worktree_ext no_repo_config worktree_state =
     (Inl NotADirectoryError,
      demo_state\<lparr>fs := ?F([''workspace'', ''.claude_data''] \<mapsto> Dir,
                          [''root'', ''.claude''] \<mapsto> Symlink [''workspace'', ''.claude_data'']),
                 trace := [Phase SetupSessionPersistence, Phase PrepareRepository,
                           Phase (EnsureGitExcludes [''workspace''])]\<rparr>)"
    unfolding spec1
    by (simp add: ensure_git_excludes_def
      log_event_def demo_paths worktree_ext_def demo_ext_def demo_fs_def path_join_child
      path_mkdir.simps os_mkdir_def parent_error_dir parent_error_def os_stat_entry
      is_dir_entry exclude_patterns_nonempty Let_def)
  show ?thesis
    unfolding code spec by (simp add: demo_fs_def)
qed

text \<open>
  A run that clones the demo repository on the empty mount: it returns, having entered
  the four phases in the order of the code, the last two on \<^verbatim>\<open>/workspace/demo\<close>.
\<close>

theorem prepare_phase_order_witness:
  "fst (prepare demo_ext (demo_config None) demo_state) = Inr ()
   \<and> phases (trace (snd (prepare demo_ext (demo_config None) demo_state))) =
       [SetupSessionPersistence, PrepareRepository,
        EnsureInputsDir [''workspace'', ''demo''], EnsureGitExcludes [''workspace'', ''demo'']]"
proof -
  have pre: "before_repository demo_ext demo_state =
     (Inr (), demo_state\<lparr>fs := demo_fs([''workspace'', ''.claude_data''] \<mapsto> Dir,
                          [''root'', ''.claude''] \<mapsto> Symlink [''workspace'', ''.claude_data'']),
                 trace := [Phase SetupSessionPersistence]\<rparr>)"
    using before_repository_fresh[of demo_ext demo_fs]
    by (simp add: demo_access demo_state_fs demo_fs_entries)
  have step: "prepare demo_ext (demo_config None) demo_state =
     finish_prepare demo_ext [''workspace'', ''demo'']
         (demo_state\<lparr>trace := [Phase SetupSessionPersistence, Phase PrepareRepository,
                               Git (Clone ''https://github.com/acme/demo.git''
                                      [''workspace'', ''demo''] None
                                      [''GIT_TERMINAL_PROMPT'' \<mapsto> ''0''])],
                     fs := demo_fs([''workspace'', ''.claude_data''] \<mapsto> Dir,
                                  [''root'', ''.claude''] \<mapsto> Symlink [''workspace'', ''.claude_data''],
                                  [''workspace'', ''demo''] \<mapsto> Dir,
                                  [''workspace'', ''demo'', ''.git''] \<mapsto> Dir)\<rparr>)"
    unfolding prepare_unfold pre by (simp add: demo_eval)
  have r: "fst (prepare demo_ext (demo_config None) demo_state) = Inr ()"
    and w: "work_path (snd (prepare demo_ext (demo_config None) demo_state))
              = [''workspace'', ''demo'']"
    unfolding step
    by (simp_all add: finish_prepare_def ensure_inputs_dir_def ensure_git_excludes_def
      updated_excludes_def log_event_def demo_paths demo_ext_def demo_fs_def path_join_child
      path_mkdir.simps os_mkdir_def parent_error_dir path_exists_entry is_dir_entry
      symlink_to_def write_text_def follow_entry exclude_patterns_def Let_def)
  show ?thesis
    using prepare_phase_order[where X=demo_ext and config="demo_config None"
        and s=demo_state] r w
    by (cases "prepare demo_ext (demo_config None) demo_state") (simp add: demo_paths)
qed

section \<open>The askpass script\<close>

lemma owner_rwx_only_mode: "owner_rwx_only (S_IRUSR OR S_IWUSR OR S_IXUSR)"
  by (simp add: owner_rwx_only_def mode_rwx)

lemma path_exists_present:
  assumes "path_exists acc F p = Inr True"
  shows "F p \<noteq> None"
proof
  assume n: "F p = None"
  show False
  proof (cases "acc p = Unsearchable")
    case True
    with assms show False by (simp add: path_exists_unsearchable)
  next
    case False
    with n assms show False by (simp add: path_exists_entry)
  qed
qed

lemma ensure_git_askpass_cases:
  "ensure_git_askpass X s =
     (case git_askpass_path s of
        None \<Rightarrow> create_git_askpass X s
      | Some p \<Rightarrow>
          (case path_exists (access X) (fs s) p of
             Inl e \<Rightarrow> (Inl e, s)
           | Inr ex \<Rightarrow> if ex then (Inr p, s) else create_git_askpass X s))"
  by (simp add: ensure_git_askpass_def)

lemma create_git_askpass_ok:
  assumes "askpass_ok s"
  shows "askpass_ok (snd (create_git_askpass X s))"
proof (cases "mkstemp X (fs s)")
  case (Inl e)
  with assms show ?thesis by (simp add: create_git_askpass_result)
next
  case (Inr pf)
  obtain p F1 where "pf = (p, F1)" by (cases pf)
  with Inr show ?thesis by (simp add: create_git_askpass_result askpass_ok_def mode_rwx)
qed

lemma ensure_git_askpass_ok:
  assumes "askpass_ok s"
  shows "askpass_ok (snd (ensure_git_askpass X s))"
  using assms create_git_askpass_ok[OF assms, of X]
  by (simp add: ensure_git_askpass_cases split: option.split sum.split)

lemma ensure_git_askpass_script:
  assumes inv: "askpass_ok s" and r: "ensure_git_askpass X s = (Inr p, s')"
  shows "git_askpass_path s' = Some p
         \<and> fs s' p = Some (File askpass_script (S_IRUSR OR S_IWUSR OR S_IXUSR))"
proof -
  have created: "git_askpass_path s' = Some p
         \<and> fs s' p = Some (File askpass_script (S_IRUSR OR S_IWUSR OR S_IXUSR))"
    if "create_git_askpass X s = (Inr p, s')"
  proof (cases "mkstemp X (fs s)")
    case (Inl e)
    with that show ?thesis by (simp add: create_git_askpass_result)
  next
    case (Inr pf)
    obtain q F1 where "pf = (q, F1)" by (cases pf)
    with Inr that show ?thesis by (auto simp: create_git_askpass_result mode_rwx)
  qed
  show ?thesis
  proof (cases "git_askpass_path s")
    case None
    with r created show ?thesis by (simp add: ensure_git_askpass_cases)
  next
    case (Some q)
    show ?thesis
    proof (cases "path_exists (access X) (fs s) q")
      case (Inl e)
      with r Some show ?thesis by (simp add: ensure_git_askpass_cases)
    next
      case (Inr ex)
      show ?thesis
      proof (cases ex)
        case True
        with r Some Inr have eq: "p = q" "s' = s" by (simp_all add: ensure_git_askpass_cases)
        have "fs s q \<noteq> None" using path_exists_present Inr True by simp
        with inv Some eq show ?thesis by (simp add: askpass_ok_def)
      next
        case False
        with r Some Inr created show ?thesis by (simp add: ensure_git_askpass_cases)
      qed
    qed
  qed
qed

lemma build_git_env_token_free:
  assumes "t1 \<noteq> []" "t2 \<noteq> []"
  shows "snd (build_git_env X url (Some t1) s) = snd (build_git_env X url (Some t2) s)"
proof (cases "token_applies X url")
  case True
  with assms show ?thesis
    by (simp add: build_git_env_applied split: prod.split sum.split)
next
  case False
  then show ?thesis by (simp add: build_git_env_withheld)
qed

text \<open>
  C5.  The script that \<^verbatim>\<open>_ensure_git_askpass\<close> writes is one fixed text, and its
  permission bits are read, write and execute for the owner and nothing for group and
  others.  Creating it makes exactly that file under the name \<^verbatim>\<open>mkstemp\<close> chose and
  remembers the name.  Building the credential environment keeps the state of the
  script; when it hands out the path of the script, the file under that path is that
  script; and for any two non-empty tokens it leaves the same state behind, file system
  included, so that nothing written depends on the token.
\<close>

theorem askpass_script_fixed:
  assumes inv: "askpass_ok s"
  shows "owner_rwx_only (S_IRUSR OR S_IWUSR OR S_IXUSR)
     \<and> create_git_askpass X s =
         (case mkstemp X (fs s) of
            Inl e \<Rightarrow> (Inl e, s)
          | Inr (p, F1) \<Rightarrow>
              (Inr p, s\<lparr>fs := (fs s)(p \<mapsto> File askpass_script (S_IRUSR OR S_IWUSR OR S_IXUSR)),
                         git_askpass_path := Some p\<rparr>))
     \<and> askpass_ok (snd (build_git_env X url token s))
     \<and> (\<forall>env s' a. build_git_env X url token s = (Inr env, s') \<and> env ''GIT_ASKPASS'' = Some a
           \<longrightarrow> (\<exists>p. a = str_path p \<and> git_askpass_path s' = Some p
                    \<and> fs s' p = Some (File askpass_script (S_IRUSR OR S_IWUSR OR S_IXUSR))))
     \<and> (\<forall>t1 t2. t1 \<noteq> [] \<and> t2 \<noteq> [] \<longrightarrow>
           snd (build_git_env X url (Some t1) s) = snd (build_git_env X url (Some t2) s))"
proof -
  have keep: "askpass_ok (snd (build_git_env X url token s))"
  proof (cases "token = None \<or> token = Some [] \<or> \<not> token_applies X url")
    case True
    with inv show ?thesis by (auto simp: build_git_env_no_token build_git_env_withheld)
  next
    case False
    then obtain tok where tok: "token = Some tok" "tok \<noteq> []" "token_applies X url" by auto
    have "snd (build_git_env X url token s) = snd (ensure_git_askpass X s)"
      using tok by (simp add: build_git_env_applied split: prod.split sum.split)
    with ensure_git_askpass_ok[OF inv] show ?thesis by simp
  qed
  have handed: "\<exists>p. a = str_path p \<and> git_askpass_path s' = Some p
                    \<and> fs s' p = Some (File askpass_script (S_IRUSR OR S_IWUSR OR S_IXUSR))"
    if r: "build_git_env X url token s = (Inr env, s')" and a: "env ''GIT_ASKPASS'' = Some a"
    for env s' a
  proof (cases "token = None \<or> token = Some [] \<or> \<not> token_applies X url")
    case True
    with r a show ?thesis by (auto simp: build_git_env_no_token build_git_env_withheld)
  next
    case False
    then obtain tok where tok: "token = Some tok" "tok \<noteq> []" "token_applies X url" by auto
    obtain r1 s1 where e: "ensure_git_askpass X s = (r1, s1)"
      by (cases "ensure_git_askpass X s")
    from r tok e obtain p where p: "r1 = Inr p" "s' = s1" "a = str_path p"
      using a by (cases r1) (auto simp: build_git_env_applied)
    from ensure_git_askpass_script[OF inv e[unfolded p(1)]] p show ?thesis by simp
  qed
  have made: "create_git_askpass X s =
         (case mkstemp X (fs s) of
            Inl e \<Rightarrow> (Inl e, s)
          | Inr (p, F1) \<Rightarrow>
              (Inr p, s\<lparr>fs := (fs s)(p \<mapsto> File askpass_script (S_IRUSR OR S_IWUSR OR S_IXUSR)),
                         git_askpass_path := Some p\<rparr>))"
    unfolding mode_rwx by (rule create_git_askpass_result)
  have free: "\<forall>t1 t2. t1 \<noteq> [] \<and> t2 \<noteq> [] \<longrightarrow>
           snd (build_git_env X url (Some t1) s) = snd (build_git_env X url (Some t2) s)"
    using build_git_env_token_free by blast
  have handed': "\<forall>env s' a. build_git_env X url token s = (Inr env, s') \<and> env ''GIT_ASKPASS'' = Some a
           \<longrightarrow> (\<exists>p. a = str_path p \<and> git_askpass_path s' = Some p
                    \<and> fs s' p = Some (File askpass_script (S_IRUSR OR S_IWUSR OR S_IXUSR)))"
    using handed by blast
  from owner_rwx_only_mode made keep handed' free show ?thesis by (intro conjI)
qed

text \<open>
  On the demo mount a token for \<^verbatim>\<open>github.com\<close> makes the script
  \<^verbatim>\<open>/tmp/poco-git-askpass-0\<close> with the fixed text and the bits 0700, whatever the
  token.
\<close>

theorem askpass_script_fixed_witness:
  "askpass_ok demo_state
   \<and> fs (snd (build_git_env demo_ext ''https://github.com/acme/repo'' (Some ''abc'') demo_state))
        [''tmp'', ''poco-git-askpass-0''] = Some (File askpass_script 448)
   \<and> snd (build_git_env demo_ext ''https://github.com/acme/repo'' (Some ''abc'') demo_state)
       = snd (build_git_env demo_ext ''https://github.com/acme/repo'' (Some ''xyz'') demo_state)"
proof -
  have i: "askpass_ok demo_state" by (simp add: askpass_ok_def demo_paths)
  have e: "build_git_env demo_ext ''https://github.com/acme/repo'' (Some ''abc'') demo_state =
     (Inr [''GIT_TERMINAL_PROMPT'' \<mapsto> ''0'',
           ''GIT_ASKPASS'' \<mapsto> str_path [''tmp'', ''poco-git-askpass-0''],
           ''POCO_GIT_USERNAME'' \<mapsto> ''x-access-token'',
           ''POCO_GIT_TOKEN'' \<mapsto> ''abc''],
      demo_state\<lparr>fs := demo_fs([''tmp'', ''poco-git-askpass-0''] \<mapsto> File askpass_script 448),
                 git_askpass_path := Some [''tmp'', ''poco-git-askpass-0'']\<rparr>)"
    by (simp add: build_git_env_applied demo_token_applies demo_askpass)
  have e': "snd (build_git_env demo_ext ''https://github.com/acme/repo'' (Some ''xyz'') demo_state) =
      demo_state\<lparr>fs := demo_fs([''tmp'', ''poco-git-askpass-0''] \<mapsto> File askpass_script 448),
                 git_askpass_path := Some [''tmp'', ''poco-git-askpass-0'']\<rparr>"
    by (simp add: build_git_env_applied demo_token_applies demo_askpass)
  from askpass_script_fixed[OF i, where X=demo_ext and url="''https://github.com/acme/repo''"
      and token="Some ''abc''"] i
  show ?thesis
    unfolding e e' by (simp add: mode_rwx)
qed

section \<open>Inputs directory\<close>

text \<open>
  C8 fails where the repository directory cannot be searched: the test
  \<^verbatim>\<open>link_path.exists()\<close> stands outside every handler, so the error of the lookup
  leaves \<^verbatim>\<open>_ensure_inputs_dir\<close>; the inputs directory of the mount has been made and
  no link is.
\<close>

theorem ensure_inputs_dir_raises_when_lookup_refused:
  "fst (ensure_inputs_dir closed_repo_ext [''workspace'', ''demo''] repo_dir_state)
     = Inl PermissionError
   \<and> fs (snd (ensure_inputs_dir closed_repo_ext [''workspace'', ''demo''] repo_dir_state))
        [''workspace'', ''inputs''] = Some Dir
   \<and> fs (snd (ensure_inputs_dir closed_repo_ext [''workspace'', ''demo''] repo_dir_state))
        [''workspace'', ''demo'', ''inputs''] = None"
  by (simp add: ensure_inputs_dir_def repo_dir_state_def closed_repo_ext_def demo_paths
      log_event_def demo_ext_def demo_fs_def path_join_child path_mkdir.simps os_mkdir_def
      parent_error_dir path_exists_entry path_exists_unsearchable is_dir_entry Let_def)

end
